theory Spec2Isabelle
  imports Main "HOL-Library.AList"
begin

section \<open>Feature extraction of hvc: \<open>hvc/features/extract.py\<close>\<close>

text \<open>
  A shallow embedding of \<open>FeatureExtractor._from_file\<close> (one audio file) and of the
  aggregation loop and sample count of \<open>FeatureExtractor.extract\<close> (a corpus).
  The collaborators the module imports (audio decoders, \<open>make_syls\<close>, the three feature
  dictionaries) are parameters, collected in the record \<open>env\<close>; they are taken to be
  functions that return. Every exception the module itself or numpy raises on the way is
  a value \<open>Inl e\<close>.
\<close>

subsection \<open>Exceptions and effects\<close>

datatype error =
    NameError          \<comment> \<open>a local that was never bound (UnboundLocalError)\<close>
  | AttributeError
  | ValueError         \<comment> \<open>raised by the module and by numpy (AxisError included)\<close>
  | IndexError
  | AssertionError
  | KeyError

text \<open>
  What a call does beyond its value: the call of \<open>make_syls\<close> (the per-segment
  spectrograms) and the one \<open>warnings.warn\<close> of the module, with the file name and the
  label set of its message.
\<close>

datatype event = MakeSyls | Warn string string

subsection \<open>numpy arrays\<close>

text \<open>
  A float is not-a-number or a value. One- and two-dimensional arrays: \<open>A1 xs\<close> has
  shape \<open>(length xs,)\<close>, \<open>A2 n rows\<close> has shape \<open>(length rows, n)\<close>.
\<close>

datatype 'a cell = NaN | Val 'a

datatype 'a ndarray = A1 "'a list" | A2 nat "'a list list"

fun shape0 :: "'a ndarray \<Rightarrow> nat" where
  "shape0 (A1 xs) = length xs"
| "shape0 (A2 n rows) = length rows"

text \<open>\<open>np.full((m,), np.nan)\<close> and \<open>np.full((m, w), np.nan)\<close>.\<close>

definition full1 :: "nat \<Rightarrow> 'a cell ndarray" where
  "full1 m = A1 (replicate m NaN)"

definition full2 :: "nat \<Rightarrow> nat \<Rightarrow> 'a cell ndarray" where
  "full2 m w = A2 w (replicate m (replicate w NaN))"

text \<open>
  \<open>arr[ind] = x\<close> for a scalar \<open>x\<close>: one element of a 1-d array, a whole row of a
  2-d array (broadcast).
\<close>

fun setitem :: "'a ndarray \<Rightarrow> nat \<Rightarrow> 'a \<Rightarrow> error + 'a ndarray" where
  "setitem (A1 xs) ind x =
     (if ind < length xs then Inr (A1 (xs[ind := x])) else Inl IndexError)"
| "setitem (A2 n rows) ind x =
     (if ind < length rows then Inr (A2 n (rows[ind := replicate n x])) else Inl IndexError)"

text \<open>
  \<open>arr[ind, :] = v[np.newaxis, :]\<close> for a 1-d \<open>v\<close>: too many indices for a 1-d array;
  in a 2-d array the row is replaced when the widths agree, filled when \<open>v\<close> has one
  element, and the shapes cannot be broadcast otherwise.
\<close>

fun setitem_row :: "'a ndarray \<Rightarrow> nat \<Rightarrow> 'a list \<Rightarrow> error + 'a ndarray" where
  "setitem_row (A1 xs) ind v = Inl IndexError"
| "setitem_row (A2 n rows) ind v =
     (if \<not> ind < length rows then Inl IndexError
      else if length v = n then Inr (A2 n (rows[ind := v]))
      else if length v = 1 then Inr (A2 n (rows[ind := replicate n (hd v)]))
      else Inl ValueError)"

text \<open>\<open>np.concatenate((a, b), axis=1)\<close>: both 2-d with the same number of rows.\<close>

fun concatenate_axis1 :: "'a ndarray \<Rightarrow> 'a ndarray \<Rightarrow> error + 'a ndarray" where
  "concatenate_axis1 (A2 n r) (A2 m s) =
     (if length r = length s then Inr (A2 (n + m) (map2 (@) r s)) else Inl ValueError)"
| "concatenate_axis1 a b = Inl ValueError"

text \<open>\<open>np.concatenate((a, b), axis=0)\<close>: the same number of dimensions and of columns.\<close>

fun concatenate_axis0 :: "'a ndarray \<Rightarrow> 'a ndarray \<Rightarrow> error + 'a ndarray" where
  "concatenate_axis0 (A1 xs) (A1 ys) = Inr (A1 (xs @ ys))"
| "concatenate_axis0 (A2 n r) (A2 m s) =
     (if n = m then Inr (A2 n (r @ s)) else Inl ValueError)"
| "concatenate_axis0 a b = Inl ValueError"

text \<open>\<open>np.concatenate((a, b), axis=-1)\<close>: along the last axis.\<close>

fun concatenate_last :: "'a ndarray \<Rightarrow> 'a ndarray \<Rightarrow> error + 'a ndarray" where
  "concatenate_last (A1 xs) (A1 ys) = Inr (A1 (xs @ ys))"
| "concatenate_last (A2 n r) (A2 m s) = concatenate_axis1 (A2 n r) (A2 m s)"
| "concatenate_last a b = Inl ValueError"

text \<open>\<open>np.concatenate(arrays)\<close> of a list of arrays, along axis 0; the empty list is refused.\<close>

fun concatenate_list_from :: "'a ndarray \<Rightarrow> 'a ndarray list \<Rightarrow> error + 'a ndarray" where
  "concatenate_list_from a [] = Inr a"
| "concatenate_list_from a (b # bs) =
     (case concatenate_axis0 a b of Inl e \<Rightarrow> Inl e | Inr c \<Rightarrow> concatenate_list_from c bs)"

fun concatenate_list :: "'a ndarray list \<Rightarrow> error + 'a ndarray" where
  "concatenate_list [] = Inl ValueError"
| "concatenate_list (a # as) = concatenate_list_from a as"

text \<open>
  \<open>v[:, np.newaxis]\<close> of a 1-d array, also \<open>v[np.newaxis, :].T\<close>: the column of shape
  \<open>(length v, 1)\<close>.
\<close>

definition column :: "'a list \<Rightarrow> 'a ndarray" where
  "column xs = A2 1 (map (\<lambda>x. [x]) xs)"

text \<open>
  \<open>np.concatenate((features_arr, cur[np.newaxis, :].T), axis=1)\<close>. For a 2-d \<open>cur\<close>
  the second operand has three dimensions, which no \<open>features_arr\<close> has.
\<close>

fun concatenate_newaxis_T :: "'a ndarray \<Rightarrow> 'a ndarray \<Rightarrow> error + 'a ndarray" where
  "concatenate_newaxis_T features (A1 xs) = concatenate_axis1 features (column xs)"
| "concatenate_newaxis_T features (A2 n rows) = Inl ValueError"

text \<open>
  \<open>arr[msk]\<close> with a boolean mask: the entries where the mask holds, in order; the mask
  has to be as long as the array.
\<close>

definition bool_index :: "'x list \<Rightarrow> bool list \<Rightarrow> error + 'x list" where
  "bool_index xs msk =
     (if length msk = length xs then Inr (map fst (filter snd (zip xs msk)))
      else Inl IndexError)"

text \<open>\<open>s.endswith(suffix)\<close>.\<close>

definition endswith :: "string \<Rightarrow> string \<Rightarrow> bool" where
  "endswith s suf = (length suf \<le> length s \<and> drop (length s - length suf) s = suf)"

subsection \<open>The data of one file\<close>

text \<open>
  A syllable of \<open>hvc.audiofileIO\<close>; only its \<open>spect\<close> is read here, and \<open>None\<close> is the
  \<open>np.nan\<close> that stands for a spectrogram that could not be computed.
\<close>

datatype 'sp syllable = Syllable (spect: "'sp option")

text \<open>What a single-syllable feature returns: a scalar or a 1-d array.\<close>

datatype 'a ftr = Scalar "'a cell" | Vector "'a cell list"

fun isscalar :: "'a ftr \<Rightarrow> bool" where
  "isscalar (Scalar x) = True"
| "isscalar (Vector v) = False"

text \<open>
  The \<open>labels\<close> argument: the documented array of characters, or a plain string, which
  the body converts. A label is one character.
\<close>

datatype labels_arg = LStr string | LArr "char list"

fun labels_list :: "labels_arg \<Rightarrow> char list" where
  "labels_list (LStr s) = s"
| "labels_list (LArr ls) = ls"

record ('au, 'sp, 'a) env =
  load_cbin :: "string \<Rightarrow> 'au \<times> int"
  wavfile_read :: "string \<Rightarrow> int \<times> 'au"
  make_syls :: "'au \<Rightarrow> int \<Rightarrow> char list \<Rightarrow> int list \<Rightarrow> int list \<Rightarrow> 'sp syllable list"
  single_syl_features_switch_case_dict :: "string \<rightharpoonup> ('sp syllable \<Rightarrow> 'a ftr)"
  multiple_syl_features_switch_case_dict ::
    "string \<rightharpoonup> (int list \<Rightarrow> int list \<Rightarrow> bool list \<Rightarrow> 'a cell list)"
  neural_net_features_switch_case_dict ::
    "string \<rightharpoonup> ('au \<Rightarrow> int \<Rightarrow> char list \<Rightarrow> int list \<Rightarrow> int list \<Rightarrow> 'a cell ndarray)"

text \<open>The dictionary \<open>_from_file\<close> returns; a key that is absent is \<open>None\<close>.\<close>

record 'a extract_dict =
  ed_labels :: "char list"
  ed_onsets_Hz :: "int list"
  ed_offsets_Hz :: "int list"
  ed_features_arr :: "'a cell ndarray option"
  ed_feature_inds :: "nat list option"
  ed_neuralnet_inputs_dict :: "(string \<times> 'a cell ndarray) list option"
  ed_samp_freq :: int

text \<open>
  The locals of \<open>_from_file\<close> that the feature loop tests with \<open>in locals()\<close>, with
  \<open>feature_inds\<close>. A dictionary is an association list in insertion order.
\<close>

record ('sp, 'a) locals =
  syls :: "'sp syllable list option"
  curr_feature_arr :: "'a cell ndarray option"
  ftr :: "'a ftr option"
  features_arr :: "'a cell ndarray option"
  feature_inds :: "nat list"
  neuralnet_inputs_dict :: "(string \<times> 'a cell ndarray) list option"

definition init_locals :: "('sp, 'a) locals" where
  "init_locals = \<lparr>syls = None, curr_feature_arr = None, ftr = None, features_arr = None,
     feature_inds = [], neuralnet_inputs_dict = None\<rparr>"

subsection \<open>\<open>_from_file\<close>\<close>

text \<open>
  Lines 481-484: the audio is read by the extension of the file name; with another
  extension \<open>raw_audio\<close> and \<open>samp_freq\<close> stay unbound (\<open>None\<close>).
\<close>

definition load_audio :: "('au, 'sp, 'a) env \<Rightarrow> string \<Rightarrow> ('au \<times> int) option" where
  "load_audio env filename =
     (if endswith filename ''.cbin'' then Some (load_cbin env filename)
      else if endswith filename ''.wav''
        then (case wavfile_read env filename of (samp_freq, raw_audio) \<Rightarrow>
                Some (raw_audio, samp_freq))
      else None)"

text \<open>
  Lines 486-490: the mask. With \<open>'all'\<close> it is built from \<open>labels.shape\<close>, which a
  string does not have.
\<close>

definition use_these_labels_bool :: "labels_arg \<Rightarrow> string \<Rightarrow> error + bool list" where
  "use_these_labels_bool labels labels_to_use =
     (if labels_to_use = ''all''
      then (case labels of
              LArr ls \<Rightarrow> Inr (replicate (length ls) True)
            | LStr s \<Rightarrow> Inl AttributeError)
      else Inr (map (\<lambda>label. label \<in> set labels_to_use) (labels_list labels)))"

text \<open>
  Lines 528-559, the body of the loop over the syllables, for the syllable \<open>syl\<close> at
  index \<open>ind\<close> of \<open>n\<close>; the state is \<open>curr_feature_arr\<close> and \<open>ftr\<close>.
\<close>

definition syl_step ::
  "('sp syllable \<Rightarrow> 'a ftr) \<Rightarrow> nat \<Rightarrow> 'a cell ndarray option \<times> 'a ftr option \<Rightarrow>
   nat \<times> 'sp syllable \<Rightarrow> error + ('a cell ndarray option \<times> 'a ftr option)" where
  "syl_step f n st p =
     (case p of (ind, syl) \<Rightarrow>
      (case spect syl of
         None \<Rightarrow> Inr st
       | Some sp \<Rightarrow>
          (let v = f syl;
               arr = (case fst st of
                        Some arr \<Rightarrow> arr
                      | None \<Rightarrow> (case v of Scalar x \<Rightarrow> full1 n
                                  | Vector xs \<Rightarrow> full2 n (length xs)))
           in case (case v of Scalar x \<Rightarrow> setitem arr ind x
                    | Vector xs \<Rightarrow> setitem_row arr ind xs) of
                Inl e \<Rightarrow> Inl e
              | Inr arr' \<Rightarrow> Inr (Some arr', Some v))))"

fun syl_loop ::
  "('sp syllable \<Rightarrow> 'a ftr) \<Rightarrow> nat \<Rightarrow> 'a cell ndarray option \<times> 'a ftr option \<Rightarrow>
   (nat \<times> 'sp syllable) list \<Rightarrow> error + ('a cell ndarray option \<times> 'a ftr option)" where
  "syl_loop f n st [] = Inr st"
| "syl_loop f n st (p # ps) =
     (case syl_step f n st p of Inl e \<Rightarrow> Inl e | Inr st' \<Rightarrow> syl_loop f n st' ps)"

text \<open>
  Lines 516-522: \<open>make_syls\<close> is called when \<open>syls\<close> is not among the locals yet; its
  arguments are evaluated first.
\<close>

definition ensure_syls ::
  "('au, 'sp, 'a) env \<Rightarrow> ('au \<times> int) option \<Rightarrow> char list \<Rightarrow> int list \<Rightarrow> int list \<Rightarrow>
   bool list \<Rightarrow> ('sp, 'a) locals \<Rightarrow> error + (event list \<times> ('sp, 'a) locals)" where
  "ensure_syls env audio labels onsets_Hz offsets_Hz msk l =
     (case syls l of
        Some s \<Rightarrow> Inr ([], l)
      | None \<Rightarrow>
         (case audio of
            None \<Rightarrow> Inl NameError
          | Some (raw_audio, samp_freq) \<Rightarrow>
             (case bool_index labels msk of Inl e \<Rightarrow> Inl e | Inr ls \<Rightarrow>
              (case bool_index onsets_Hz msk of Inl e \<Rightarrow> Inl e | Inr ons \<Rightarrow>
               (case bool_index offsets_Hz msk of Inl e \<Rightarrow> Inl e | Inr offs \<Rightarrow>
                  Inr ([MakeSyls],
                       l\<lparr>syls := Some (make_syls env raw_audio samp_freq ls ons offs)\<rparr>))))))"

text \<open>
  Lines 562-583: after the loop over the syllables, the columns of the feature join
  \<open>features_arr\<close>. \<open>ftr\<close> is the last value the feature function returned.
\<close>

definition append_single ::
  "nat \<Rightarrow> ('sp, 'a) locals \<Rightarrow> error + ('sp, 'a) locals" where
  "append_single ftr_ind l =
     (case ftr l of
        None \<Rightarrow> Inl NameError
      | Some v \<Rightarrow>
         (let inds = feature_inds l @
                (case v of Scalar x \<Rightarrow> [ftr_ind]
                 | Vector xs \<Rightarrow> replicate (length xs) ftr_ind)
          in case curr_feature_arr l of
               None \<Rightarrow> Inl NameError
             | Some cur \<Rightarrow>
                (case features_arr l of
                   Some features \<Rightarrow>
                     (case (if isscalar v then concatenate_newaxis_T features cur
                            else concatenate_axis1 features cur) of
                        Inl e \<Rightarrow> Inl e
                      | Inr features' \<Rightarrow>
                          Inr (l\<lparr>features_arr := Some features', feature_inds := inds\<rparr>))
                 | None \<Rightarrow> Inr (l\<lparr>features_arr := Some cur, feature_inds := inds\<rparr>))))"

text \<open>Lines 515-583: a feature of \<open>single_syl_features_switch_case_dict\<close>.\<close>

definition single_syl_feature ::
  "('au, 'sp, 'a) env \<Rightarrow> ('au \<times> int) option \<Rightarrow> char list \<Rightarrow> int list \<Rightarrow> int list \<Rightarrow>
   bool list \<Rightarrow> ('sp syllable \<Rightarrow> 'a ftr) \<Rightarrow> nat \<Rightarrow> ('sp, 'a) locals \<Rightarrow>
   event list \<times> (error + ('sp, 'a) locals)" where
  "single_syl_feature env audio labels onsets_Hz offsets_Hz msk f ftr_ind l =
     (case ensure_syls env audio labels onsets_Hz offsets_Hz msk l of
        Inl e \<Rightarrow> ([], Inl e)
      | Inr (evs, l1) \<Rightarrow>
         (evs,
          (case syls l1 of
             None \<Rightarrow> Inl NameError
           | Some ss \<Rightarrow>
              (case syl_loop f (length ss) (None, ftr l1) (enumerate 0 ss) of
                 Inl e \<Rightarrow> Inl e
               | Inr (cur, v) \<Rightarrow>
                   append_single ftr_ind (l1\<lparr>curr_feature_arr := cur, ftr := v\<rparr>)))))"

text \<open>Lines 585-595: a feature of \<open>multiple_syl_features_switch_case_dict\<close>.\<close>

definition multiple_syl_feature ::
  "int list \<Rightarrow> int list \<Rightarrow> bool list \<Rightarrow>
   (int list \<Rightarrow> int list \<Rightarrow> bool list \<Rightarrow> 'a cell list) \<Rightarrow> nat \<Rightarrow> ('sp, 'a) locals \<Rightarrow>
   error + ('sp, 'a) locals" where
  "multiple_syl_feature onsets_Hz offsets_Hz msk g ftr_ind l =
     (let cur = g onsets_Hz offsets_Hz msk;
          l1 = l\<lparr>curr_feature_arr := Some (A1 cur),
                 feature_inds := feature_inds l @ [ftr_ind]\<rparr>
      in case features_arr l1 of
           Some features \<Rightarrow>
             (case concatenate_axis1 features (column cur) of
                Inl e \<Rightarrow> Inl e
              | Inr features' \<Rightarrow> Inr (l1\<lparr>features_arr := Some features'\<rparr>))
         | None \<Rightarrow> Inr (l1\<lparr>features_arr := Some (column cur)\<rparr>))"

text \<open>
  Lines 596-616: a feature of \<open>neural_net_features_switch_case_dict\<close>. Its output is an
  array, so the test \<open>type(...) is np.ndarray\<close> holds.
\<close>

definition neural_net_feature ::
  "('au \<times> int) option \<Rightarrow> char list \<Rightarrow> int list \<Rightarrow> int list \<Rightarrow> bool list \<Rightarrow>
   ('au \<Rightarrow> int \<Rightarrow> char list \<Rightarrow> int list \<Rightarrow> int list \<Rightarrow> 'a cell ndarray) \<Rightarrow> string \<Rightarrow>
   ('sp, 'a) locals \<Rightarrow> error + ('sp, 'a) locals" where
  "neural_net_feature audio labels onsets_Hz offsets_Hz msk h current_feature l =
     (case audio of
        None \<Rightarrow> Inl NameError
      | Some (raw_audio, samp_freq) \<Rightarrow>
         (case bool_index labels msk of Inl e \<Rightarrow> Inl e | Inr ls \<Rightarrow>
          (case bool_index onsets_Hz msk of Inl e \<Rightarrow> Inl e | Inr ons \<Rightarrow>
           (case bool_index offsets_Hz msk of Inl e \<Rightarrow> Inl e | Inr offs \<Rightarrow>
            (let curr_neuralnet_input = h raw_audio samp_freq ls ons offs
             in case neuralnet_inputs_dict l of
                  Some d \<Rightarrow>
                    (case map_of d current_feature of
                       Some old \<Rightarrow>
                         (case concatenate_last old curr_neuralnet_input of
                            Inl e \<Rightarrow> Inl e
                          | Inr new \<Rightarrow>
                              Inr (l\<lparr>neuralnet_inputs_dict :=
                                        Some (AList.update current_feature new d)\<rparr>))
                     | None \<Rightarrow>
                         Inr (l\<lparr>neuralnet_inputs_dict :=
                                   Some (AList.update current_feature curr_neuralnet_input d)\<rparr>))
                | None \<Rightarrow>
                    Inr (l\<lparr>neuralnet_inputs_dict :=
                              Some [(current_feature, curr_neuralnet_input)]\<rparr>))))))"

text \<open>
  Lines 512-616: the body of the loop over \<open>enumerate(self.feature_list)\<close>; a name in
  none of the three dictionaries is passed over.
\<close>

definition feature_step ::
  "('au, 'sp, 'a) env \<Rightarrow> ('au \<times> int) option \<Rightarrow> char list \<Rightarrow> int list \<Rightarrow> int list \<Rightarrow>
   bool list \<Rightarrow> ('sp, 'a) locals \<Rightarrow> nat \<times> string \<Rightarrow> event list \<times> (error + ('sp, 'a) locals)" where
  "feature_step env audio labels onsets_Hz offsets_Hz msk l p =
     (case p of (ftr_ind, current_feature) \<Rightarrow>
      (case single_syl_features_switch_case_dict env current_feature of
         Some f \<Rightarrow> single_syl_feature env audio labels onsets_Hz offsets_Hz msk f ftr_ind l
       | None \<Rightarrow>
          (case multiple_syl_features_switch_case_dict env current_feature of
             Some g \<Rightarrow> ([], multiple_syl_feature onsets_Hz offsets_Hz msk g ftr_ind l)
           | None \<Rightarrow>
              (case neural_net_features_switch_case_dict env current_feature of
                 Some h \<Rightarrow>
                   ([], neural_net_feature audio labels onsets_Hz offsets_Hz msk h
                          current_feature l)
               | None \<Rightarrow> ([], Inr l)))))"

fun feature_loop ::
  "('au, 'sp, 'a) env \<Rightarrow> ('au \<times> int) option \<Rightarrow> char list \<Rightarrow> int list \<Rightarrow> int list \<Rightarrow>
   bool list \<Rightarrow> ('sp, 'a) locals \<Rightarrow> (nat \<times> string) list \<Rightarrow>
   event list \<times> (error + ('sp, 'a) locals)" where
  "feature_loop env audio labels onsets_Hz offsets_Hz msk l [] = ([], Inr l)"
| "feature_loop env audio labels onsets_Hz offsets_Hz msk l (p # ps) =
     (case feature_step env audio labels onsets_Hz offsets_Hz msk l p of
        (evs, Inl e) \<Rightarrow> (evs, Inl e)
      | (evs, Inr l') \<Rightarrow>
          (case feature_loop env audio labels onsets_Hz offsets_Hz msk l' ps of
             (evs', r) \<Rightarrow> (evs @ evs', r)))"

text \<open>Lines 619-628: the dictionary that is returned.\<close>

definition make_extract_dict ::
  "('au \<times> int) option \<Rightarrow> char list \<Rightarrow> int list \<Rightarrow> int list \<Rightarrow> bool list \<Rightarrow>
   ('sp, 'a) locals \<Rightarrow> error + 'a extract_dict" where
  "make_extract_dict audio labels onsets_Hz offsets_Hz msk l =
     (case bool_index labels msk of Inl e \<Rightarrow> Inl e | Inr ls \<Rightarrow>
      (case bool_index onsets_Hz msk of Inl e \<Rightarrow> Inl e | Inr ons \<Rightarrow>
       (case bool_index offsets_Hz msk of Inl e \<Rightarrow> Inl e | Inr offs \<Rightarrow>
        (case audio of
           None \<Rightarrow> Inl NameError
         | Some (raw_audio, samp_freq) \<Rightarrow>
             Inr \<lparr>ed_labels = ls, ed_onsets_Hz = ons, ed_offsets_Hz = offs,
                  ed_features_arr = features_arr l,
                  ed_feature_inds =
                    (case features_arr l of None \<Rightarrow> None | Some a \<Rightarrow> Some (feature_inds l)),
                  ed_neuralnet_inputs_dict = neuralnet_inputs_dict l,
                  ed_samp_freq = samp_freq\<rparr>))))"

text \<open>
  \<open>_from_file\<close>: the events of the call, and the exception raised or the value returned,
  \<open>None\<close> when no label matched.
\<close>

definition from_file ::
  "('au, 'sp, 'a) env \<Rightarrow> string list \<Rightarrow> string \<Rightarrow> labels_arg \<Rightarrow> int list \<Rightarrow> int list \<Rightarrow>
   string \<Rightarrow> event list \<times> (error + 'a extract_dict option)" where
  "from_file env feature_list filename labels onsets_Hz offsets_Hz labels_to_use =
     (let audio = load_audio env filename in
      case use_these_labels_bool labels labels_to_use of
        Inl e \<Rightarrow> ([], Inl e)
      | Inr msk \<Rightarrow>
         (let ls = labels_list labels in
          if \<not> (True \<in> set msk) then ([Warn filename labels_to_use], Inr None)
          else
            (case feature_loop env audio ls onsets_Hz offsets_Hz msk init_locals
                    (enumerate 0 feature_list) of
               (evs, Inl e) \<Rightarrow> (evs, Inl e)
             | (evs, Inr l) \<Rightarrow>
                 (case make_extract_dict audio ls onsets_Hz offsets_Hz msk l of
                    Inl e \<Rightarrow> (evs, Inl e)
                  | Inr d \<Rightarrow> (evs, Inr (Some d))))))"

subsection \<open>\<open>extract\<close>: the loop over the files\<close>

text \<open>An entry of \<open>annotation_list\<close>.\<close>

record annotation_dict =
  ad_filename :: string
  ad_labels :: labels_arg
  ad_onsets_Hz :: "int list"
  ad_offsets_Hz :: "int list"

text \<open>
  The locals of \<open>extract\<close> that the loop over the files updates (lines 288-294), with
  the three it tests with \<open>in locals()\<close>: \<open>feature_inds\<close> (here \<open>ref_feature_inds\<close>),
  \<open>features_from_all_files\<close> and \<open>neuralnet_inputs_all_files\<close>.
\<close>

record 'a extract_locals =
  all_labels :: "char list"
  all_onsets_Hz :: "int list"
  all_offsets_Hz :: "int list"
  all_sampfreqs :: "int list"
  songfiles :: "string list"
  songfile_IDs :: "nat list"
  songfile_ID_counter :: nat
  ref_feature_inds :: "nat list option"
  features_from_all_files :: "'a cell ndarray option"
  neuralnet_inputs_all_files :: "(string \<times> 'a cell ndarray list) list option"

definition init_extract_locals :: "'a extract_locals" where
  "init_extract_locals = \<lparr>all_labels = [], all_onsets_Hz = [], all_offsets_Hz = [],
     all_sampfreqs = [], songfiles = [], songfile_IDs = [], songfile_ID_counter = 0,
     ref_feature_inds = None, features_from_all_files = None,
     neuralnet_inputs_all_files = None\<rparr>"

text \<open>
  Lines 309-314: the first \<open>feature_inds\<close> is kept, every later one is compared with it
  by \<open>np.array_equal\<close> under an \<open>assert\<close>.
\<close>

definition check_feature_inds ::
  "'a extract_locals \<Rightarrow> 'a extract_dict \<Rightarrow> error + 'a extract_locals" where
  "check_feature_inds st d =
     (case ed_feature_inds d of
        None \<Rightarrow> Inr st
      | Some inds \<Rightarrow>
         (case ref_feature_inds st of
            None \<Rightarrow> Inr (st\<lparr>ref_feature_inds := Some inds\<rparr>)
          | Some ref \<Rightarrow> if ref = inds then Inr st else Inl AssertionError))"

text \<open>Lines 316-323: labels, onsets, offsets, sample rate, file name and file identifiers.\<close>

definition accumulate_segments ::
  "'a extract_locals \<Rightarrow> string \<Rightarrow> 'a extract_dict \<Rightarrow> 'a extract_locals" where
  "accumulate_segments st filename d =
     st\<lparr>all_labels := all_labels st @ ed_labels d,
        all_onsets_Hz := all_onsets_Hz st @ ed_onsets_Hz d,
        all_offsets_Hz := all_offsets_Hz st @ ed_offsets_Hz d,
        all_sampfreqs := all_sampfreqs st @ [ed_samp_freq d],
        songfiles := songfiles st @ [filename],
        songfile_IDs := songfile_IDs st @
          replicate (length (ed_onsets_Hz d)) (songfile_ID_counter st),
        songfile_ID_counter := songfile_ID_counter st + 1\<rparr>"

text \<open>Lines 325-331: the rows of the file join \<open>features_from_all_files\<close>.\<close>

definition accumulate_features ::
  "'a extract_locals \<Rightarrow> 'a extract_dict \<Rightarrow> error + 'a extract_locals" where
  "accumulate_features st d =
     (case ed_features_arr d of
        None \<Rightarrow> Inr st
      | Some arr \<Rightarrow>
         (case features_from_all_files st of
            Some all_arr \<Rightarrow>
              (case concatenate_axis0 all_arr arr of
                 Inl e \<Rightarrow> Inl e
               | Inr all_arr' \<Rightarrow> Inr (st\<lparr>features_from_all_files := Some all_arr'\<rparr>))
          | None \<Rightarrow> Inr (st\<lparr>features_from_all_files := Some arr\<rparr>)))"

text \<open>
  Lines 335-336: every list of \<open>neuralnet_inputs_all_files\<close> gets the input of the same
  name of this file; a name this file does not have is a KeyError.
\<close>

fun append_neuralnet_inputs ::
  "(string \<times> 'a cell ndarray list) list \<Rightarrow> (string \<times> 'a cell ndarray) list \<Rightarrow>
   error + (string \<times> 'a cell ndarray list) list" where
  "append_neuralnet_inputs [] d = Inr []"
| "append_neuralnet_inputs ((input_type, list_of_input_arr) # rest) d =
     (case map_of d input_type of
        None \<Rightarrow> Inl KeyError
      | Some input_arr \<Rightarrow>
         (case append_neuralnet_inputs rest d of
            Inl e \<Rightarrow> Inl e
          | Inr rest' \<Rightarrow> Inr ((input_type, list_of_input_arr @ [input_arr]) # rest')))"

text \<open>Lines 333-340.\<close>

definition accumulate_neuralnet_inputs ::
  "'a extract_locals \<Rightarrow> 'a extract_dict \<Rightarrow> error + 'a extract_locals" where
  "accumulate_neuralnet_inputs st d =
     (case ed_neuralnet_inputs_dict d of
        None \<Rightarrow> Inr st
      | Some nn \<Rightarrow>
         (case neuralnet_inputs_all_files st of
            Some all_nn \<Rightarrow>
              (case append_neuralnet_inputs all_nn nn of
                 Inl e \<Rightarrow> Inl e
               | Inr all_nn' \<Rightarrow> Inr (st\<lparr>neuralnet_inputs_all_files := Some all_nn'\<rparr>))
          | None \<Rightarrow>
              Inr (st\<lparr>neuralnet_inputs_all_files :=
                        Some (map (\<lambda>(input_type, input_arr). (input_type, [input_arr])) nn)\<rparr>)))"

text \<open>Lines 309-340: what the loop does with the dictionary of one file.\<close>

definition aggregate_file ::
  "'a extract_locals \<Rightarrow> string \<Rightarrow> 'a extract_dict \<Rightarrow> error + 'a extract_locals" where
  "aggregate_file st filename d =
     (case check_feature_inds st d of
        Inl e \<Rightarrow> Inl e
      | Inr st1 \<Rightarrow>
         (case accumulate_features (accumulate_segments st1 filename d) d of
            Inl e \<Rightarrow> Inl e
          | Inr st2 \<Rightarrow> accumulate_neuralnet_inputs st2 d))"

text \<open>
  Lines 295-340: one file. A file for which \<open>_from_file\<close> returned \<open>None\<close> is passed over
  (\<open>continue\<close>); an exception ends the loop.
\<close>

definition extract_step ::
  "('au, 'sp, 'a) env \<Rightarrow> string list \<Rightarrow> string \<Rightarrow> 'a extract_locals \<Rightarrow> annotation_dict \<Rightarrow>
   error + 'a extract_locals" where
  "extract_step env feature_list labels_to_use st annot =
     (case snd (from_file env feature_list (ad_filename annot) (ad_labels annot)
                  (ad_onsets_Hz annot) (ad_offsets_Hz annot) labels_to_use) of
        Inl e \<Rightarrow> Inl e
      | Inr None \<Rightarrow> Inr st
      | Inr (Some d) \<Rightarrow> aggregate_file st (ad_filename annot) d)"

fun extract_loop ::
  "('au, 'sp, 'a) env \<Rightarrow> string list \<Rightarrow> string \<Rightarrow> 'a extract_locals \<Rightarrow>
   annotation_dict list \<Rightarrow> error + 'a extract_locals" where
  "extract_loop env feature_list labels_to_use st [] = Inr st"
| "extract_loop env feature_list labels_to_use st (annot # rest) =
     (case extract_step env feature_list labels_to_use st annot of
        Inl e \<Rightarrow> Inl e
      | Inr st' \<Rightarrow> extract_loop env feature_list labels_to_use st' rest)"

subsection \<open>\<open>extract\<close>: the number of samples\<close>

text \<open>Lines 372-374: every list of inputs becomes one array.\<close>

fun concatenate_inputs ::
  "(string \<times> 'a cell ndarray list) list \<Rightarrow> error + (string \<times> 'a cell ndarray) list" where
  "concatenate_inputs [] = Inr []"
| "concatenate_inputs ((input_type, input_list) # rest) =
     (case concatenate_list input_list of
        Inl e \<Rightarrow> Inl e
      | Inr concatenated \<Rightarrow>
         (case concatenate_inputs rest of
            Inl e \<Rightarrow> Inl e
          | Inr rest' \<Rightarrow> Inr ((input_type, concatenated) # rest')))"

text \<open>
  Lines 380-389 and 395-404: the number of samples of \<open>neuralnet_inputs\<close>, when it has
  one key.
\<close>

definition neuralnet_num_samples :: "(string \<times> 'a cell ndarray) list \<Rightarrow> error + nat" where
  "neuralnet_num_samples nn =
     (if length nn = 1 then Inr (shape0 (snd (hd nn))) else Inl ValueError)"

text \<open>
  Lines 361-404: \<open>feature_file_dict['num_samples']\<close>, \<open>None\<close> when the key is not set.
  The summary file has the key \<open>features\<close> when \<open>features_from_all_files\<close> is bound, and
  the key \<open>neuralnet_inputs\<close> when \<open>neuralnet_inputs_all_files\<close> is.
\<close>

definition num_samples :: "'a extract_locals \<Rightarrow> error + nat option" where
  "num_samples st =
     (let n1 = (case features_from_all_files st of
                  Some features \<Rightarrow> Some (shape0 features)
                | None \<Rightarrow> None)
      in case (case neuralnet_inputs_all_files st of
                 None \<Rightarrow> Inr (None, n1)
               | Some all_nn \<Rightarrow>
                  (case concatenate_inputs all_nn of
                     Inl e \<Rightarrow> Inl e
                   | Inr nn \<Rightarrow>
                      (case n1 of
                         Some n \<Rightarrow> Inr (Some nn, n1)
                       | None \<Rightarrow>
                          (case neuralnet_num_samples nn of
                             Inl e \<Rightarrow> Inl e
                           | Inr n \<Rightarrow> Inr (Some nn, Some n))))) of
           Inl e \<Rightarrow> Inl e
         | Inr (neuralnet_inputs, n2) \<Rightarrow>
            (case features_from_all_files st of
               Some features \<Rightarrow> Inr (Some (shape0 features))
             | None \<Rightarrow>
                (case neuralnet_inputs of
                   Some nn \<Rightarrow>
                     (case neuralnet_num_samples nn of
                        Inl e \<Rightarrow> Inl e
                      | Inr n \<Rightarrow> Inr (Some n))
                 | None \<Rightarrow> Inr n2)))"

subsection \<open>A small registry for the examples\<close>

text \<open>
  Audio is a list of samples and a spectrogram is stood for by the length of its
  segment; a segment shorter than 5 samples has none. Three single-syllable features
  (two scalars, one vector of width 3, one vector whose width depends on the segment),
  one multiple-syllable feature and two neural-net inputs; three annotated files.
\<close>

definition ex_make_syls ::
  "int list \<Rightarrow> int \<Rightarrow> char list \<Rightarrow> int list \<Rightarrow> int list \<Rightarrow> int syllable list" where
  "ex_make_syls raw_audio samp_freq ls ons offs =
     map (\<lambda>(on, off). Syllable (if off - on < 5 then None else Some (off - on))) (zip ons offs)"

definition ex_duration :: "int syllable \<Rightarrow> int ftr" where
  "ex_duration s = Scalar (Val (the (spect s)))"

definition ex_amplitude :: "int syllable \<Rightarrow> int ftr" where
  "ex_amplitude s = Scalar (Val (2 * the (spect s)))"

definition ex_spectral_vec3 :: "int syllable \<Rightarrow> int ftr" where
  "ex_spectral_vec3 s = Vector [Val (the (spect s)), Val 0, Val 1]"

definition ex_mean_spectrum :: "int syllable \<Rightarrow> int ftr" where
  "ex_mean_spectrum s =
     Vector (replicate (if the (spect s) < 10 then 2 else 3) (Val (the (spect s))))"

definition ex_pre_duration :: "int list \<Rightarrow> int list \<Rightarrow> bool list \<Rightarrow> int cell list" where
  "ex_pre_duration ons offs m =
     map (\<lambda>(on, off). Val (off - on)) (map fst (filter snd (zip (zip ons offs) m)))"

definition ex_flatwindow ::
  "int list \<Rightarrow> int \<Rightarrow> char list \<Rightarrow> int list \<Rightarrow> int list \<Rightarrow> int cell ndarray" where
  "ex_flatwindow raw_audio samp_freq ls ons offs =
     A2 2 (map (\<lambda>(on, off). [Val on, Val off]) (zip ons offs))"

definition ex_spectrogram ::
  "int list \<Rightarrow> int \<Rightarrow> char list \<Rightarrow> int list \<Rightarrow> int list \<Rightarrow> int cell ndarray" where
  "ex_spectrogram raw_audio samp_freq ls ons offs =
     A2 1 (map (\<lambda>(on, off). [Val (off - on)]) (zip ons offs))"

definition ex_env :: "(int list, int, int) env" where
  "ex_env = \<lparr>load_cbin = (\<lambda>f. ([], 32000)), wavfile_read = (\<lambda>f. (44100, [])),
     make_syls = ex_make_syls,
     single_syl_features_switch_case_dict =
       [''duration'' \<mapsto> ex_duration, ''amplitude'' \<mapsto> ex_amplitude,
        ''spectral_vec3'' \<mapsto> ex_spectral_vec3, ''mean spectrum'' \<mapsto> ex_mean_spectrum],
     multiple_syl_features_switch_case_dict = [''pre duration'' \<mapsto> ex_pre_duration],
     neural_net_features_switch_case_dict =
       [''flatwindow'' \<mapsto> ex_flatwindow, ''spectrogram'' \<mapsto> ex_spectrogram]\<rparr>"

definition ex_file_A :: annotation_dict where
  "ex_file_A = \<lparr>ad_filename = ''A.wav'', ad_labels = LArr ''aabc'',
     ad_onsets_Hz = [0, 10, 20, 30], ad_offsets_Hz = [8, 18, 28, 38]\<rparr>"

definition ex_file_B :: annotation_dict where
  "ex_file_B = \<lparr>ad_filename = ''B.wav'', ad_labels = LArr ''cbca'',
     ad_onsets_Hz = [0, 20, 40, 60], ad_offsets_Hz = [12, 32, 52, 72]\<rparr>"

definition ex_file_C :: annotation_dict where
  "ex_file_C = \<lparr>ad_filename = ''C.wav'', ad_labels = LArr ''ccc'',
     ad_onsets_Hz = [0, 10, 20], ad_offsets_Hz = [8, 18, 28]\<rparr>"

subsection \<open>The accumulators of \<open>extract\<close> in lockstep\<close>


section \<open>Properties\<close>

subsection \<open>Boolean masks\<close>




subsection \<open>The segments \<open>_from_file\<close> retains\<close>


lemma from_file_no_match:
  assumes "(ltu \<noteq> ''all'' \<and> (\<forall>l \<in> set (labels_list labels). l \<notin> set ltu)) \<or>
           (ltu = ''all'' \<and> labels = LArr [])"
  shows "from_file env fl filename labels ons offs ltu = ([Warn filename ltu], Inr None)"
  using assms by (auto simp: from_file_def use_these_labels_bool_def Let_def)




text \<open>
  C4. When no label of a file is in \<open>labels_to_use\<close> (or the file has no segment at
  all), \<open>_from_file\<close> issues its warning and returns \<open>None\<close>, raising nothing; the loop
  of \<open>extract\<close> then leaves every accumulator as it was and goes on with the remaining
  files.
\<close>

theorem C4_no_match_skips_file:
  assumes "(ltu \<noteq> ''all'' \<and> (\<forall>l \<in> set (labels_list (ad_labels annot)). l \<notin> set ltu)) \<or>
           (ltu = ''all'' \<and> ad_labels annot = LArr [])"
  shows "from_file env fl (ad_filename annot) (ad_labels annot) (ad_onsets_Hz annot)
           (ad_offsets_Hz annot) ltu = ([Warn (ad_filename annot) ltu], Inr None) \<and>
         extract_step env fl ltu st annot = Inr st \<and>
         extract_loop env fl ltu st (annot # rest) = extract_loop env fl ltu st rest"
  by (simp add: extract_step_def from_file_no_match[OF assms])

theorem C4_no_match_skips_file_witness:
  "from_file ex_env [''duration''] ''C.wav'' (LArr ''ccc'') [0, 10, 20] [8, 18, 28] ''ab''
     = ([Warn ''C.wav'' ''ab''], Inr None) \<and>
   extract_step ex_env [''duration''] ''ab'' init_extract_locals
     \<lparr>ad_filename = ''C.wav'', ad_labels = LArr ''ccc'', ad_onsets_Hz = [0, 10, 20],
      ad_offsets_Hz = [8, 18, 28]\<rparr> = Inr init_extract_locals \<and>
   extract_loop ex_env [''duration''] ''ab'' init_extract_locals
     [\<lparr>ad_filename = ''C.wav'', ad_labels = LArr ''ccc'', ad_onsets_Hz = [0, 10, 20],
       ad_offsets_Hz = [8, 18, 28]\<rparr>] = Inr init_extract_locals"
proof -
  let ?annot = "\<lparr>ad_filename = ''C.wav'', ad_labels = LArr ''ccc'',
        ad_onsets_Hz = [0, 10, 20], ad_offsets_Hz = [8, 18, 28]\<rparr>"
  have h: "(''ab'' \<noteq> ''all'' \<and> (\<forall>l \<in> set (labels_list (ad_labels ?annot)). l \<notin> set ''ab'')) \<or>
           (''ab'' = ''all'' \<and> ad_labels ?annot = LArr [])"
    by simp
  from C4_no_match_skips_file[OF h, where env = ex_env and fl = "[''duration'']"
      and st = init_extract_locals and rest = "[]"]
  show ?thesis by simp
qed

text \<open>
  C10. The mask is computed before \<open>labels\<close> is converted: with \<open>labels_to_use = 'all'\<close>
  a plain string raises AttributeError and nothing is retained, where an array gets the
  mask that is true everywhere; with another \<open>labels_to_use\<close> the mask of a plain string
  is computed from its characters, and the call does what it does for the array of these
  characters.
\<close>

theorem C10_mask_before_conversion:
  "from_file env fl filename (LStr s) ons offs ''all'' = ([], Inl AttributeError) \<and>
   use_these_labels_bool (LStr s) ''all'' = Inl AttributeError \<and>
   use_these_labels_bool (LArr ls) ''all'' = Inr (replicate (length ls) True) \<and>
   (ltu \<noteq> ''all'' \<longrightarrow>
      use_these_labels_bool (LStr s) ltu = Inr (map (\<lambda>label. label \<in> set ltu) s) \<and>
      from_file env fl filename (LStr s) ons offs ltu
        = from_file env fl filename (LArr s) ons offs ltu)"
  by (simp add: from_file_def use_these_labels_bool_def)

theorem C10_mask_before_conversion_witness:
  "''ab'' \<noteq> ''all'' \<and>
   from_file ex_env [''duration''] ''A.wav'' (LStr ''aabc'') [0, 10, 20, 30] [8, 18, 28, 38] ''ab''
     = from_file ex_env [''duration''] ''A.wav'' (LArr ''aabc'') [0, 10, 20, 30] [8, 18, 28, 38] ''ab'' \<and>
   from_file ex_env [''duration''] ''A.wav'' (LStr ''aabc'') [0, 10, 20, 30] [8, 18, 28, 38] ''all''
     = ([], Inl AttributeError)"
proof -
  have h: "''ab'' \<noteq> ''all''" by simp
  from C10_mask_before_conversion[where env = ex_env and fl = "[''duration'']"
        and filename = "''A.wav''" and s = "''aabc''" and ons = "[0, 10, 20, 30]"
        and offs = "[8, 18, 28, 38]" and ltu = "''ab''"] h
  show ?thesis by blast
qed

subsection \<open>The reference \<open>feature_inds\<close>\<close>

lemma accumulate_segments_ref [simp]:
  "ref_feature_inds (accumulate_segments st filename d) = ref_feature_inds st"
  by (simp add: accumulate_segments_def)

lemma accumulate_features_ref:
  "accumulate_features st d = Inr st' \<Longrightarrow> ref_feature_inds st' = ref_feature_inds st"
  by (auto simp: accumulate_features_def split: option.splits sum.splits)

lemma accumulate_neuralnet_inputs_ref:
  "accumulate_neuralnet_inputs st d = Inr st' \<Longrightarrow> ref_feature_inds st' = ref_feature_inds st"
  by (auto simp: accumulate_neuralnet_inputs_def split: option.splits sum.splits)

lemma concatenate_axis0_error: "concatenate_axis0 a b = Inl e \<Longrightarrow> e = ValueError"
  by (cases a; cases b) (auto split: if_splits)

lemma accumulate_features_error: "accumulate_features st d = Inl e \<Longrightarrow> e = ValueError"
  by (auto simp: accumulate_features_def split: option.splits sum.splits
      dest: concatenate_axis0_error)

lemma append_neuralnet_inputs_error: "append_neuralnet_inputs al d = Inl e \<Longrightarrow> e = KeyError"
  by (induction al d arbitrary: e rule: append_neuralnet_inputs.induct)
     (auto split: option.splits sum.splits)

lemma accumulate_neuralnet_inputs_error:
  "accumulate_neuralnet_inputs st d = Inl e \<Longrightarrow> e = KeyError"
  by (auto simp: accumulate_neuralnet_inputs_def split: option.splits sum.splits
      dest: append_neuralnet_inputs_error)

lemma aggregate_file_ref:
  assumes "aggregate_file st filename d = Inr st'"
  shows "ref_feature_inds st' =
           (case ref_feature_inds st of None \<Rightarrow> ed_feature_inds d | Some r \<Rightarrow> Some r)"
proof -
  from assms obtain st1 st2 where
    c: "check_feature_inds st d = Inr st1" and
    f: "accumulate_features (accumulate_segments st1 filename d) d = Inr st2" and
    n: "accumulate_neuralnet_inputs st2 d = Inr st'"
    by (auto simp: aggregate_file_def split: sum.splits)
  from c have "ref_feature_inds st1 =
           (case ref_feature_inds st of None \<Rightarrow> ed_feature_inds d | Some r \<Rightarrow> Some r)"
    by (auto simp: check_feature_inds_def split: option.splits if_splits)
  with accumulate_features_ref[OF f] accumulate_neuralnet_inputs_ref[OF n]
  show ?thesis by simp
qed

lemma aggregate_file_mismatch:
  assumes "ed_feature_inds d = Some inds" "ref_feature_inds st = Some ref" "inds \<noteq> ref"
  shows "aggregate_file st filename d = Inl AssertionError"
  using assms by (auto simp: aggregate_file_def check_feature_inds_def)

lemma aggregate_file_same:
  assumes "ed_feature_inds d = Some inds" "ref_feature_inds st = Some inds"
  shows "check_feature_inds st d = Inr st \<and> aggregate_file st filename d \<noteq> Inl AssertionError"
proof -
  from assms have c: "check_feature_inds st d = Inr st"
    by (simp add: check_feature_inds_def)
  show ?thesis
  proof (intro conjI notI)
    assume a: "aggregate_file st filename d = Inl AssertionError"
    then show False
      unfolding aggregate_file_def c
      by (auto split: sum.splits dest: accumulate_features_error accumulate_neuralnet_inputs_error)
  qed (rule c)
qed

text \<open>
  C2. In the loop of \<open>extract\<close> the \<open>feature_inds\<close> of the first file whose dictionary
  has one becomes the reference and stays it; a later file whose \<open>feature_inds\<close> differs
  from the reference (in length or in a value) fails the assertion, which ends the whole
  loop; a file with the same \<open>feature_inds\<close> passes the check.
\<close>

theorem C2_feature_inds_reference:
  "(ed_feature_inds d = Some inds \<and> ref_feature_inds st = None \<and>
      aggregate_file st filename d = Inr st' \<longrightarrow> ref_feature_inds st' = Some inds) \<and>
   (ed_feature_inds d = None \<and> aggregate_file st filename d = Inr st' \<longrightarrow>
      ref_feature_inds st' = ref_feature_inds st) \<and>
   (ref_feature_inds st = Some ref \<and> aggregate_file st filename d = Inr st' \<longrightarrow>
      ref_feature_inds st' = Some ref) \<and>
   (ed_feature_inds d = Some inds \<and> ref_feature_inds st = Some ref \<and> inds \<noteq> ref \<longrightarrow>
      aggregate_file st filename d = Inl AssertionError) \<and>
   (ed_feature_inds d = Some inds \<and> ref_feature_inds st = Some ref \<and> inds \<noteq> ref \<and>
    snd (from_file env fl (ad_filename annot) (ad_labels annot) (ad_onsets_Hz annot)
           (ad_offsets_Hz annot) ltu) = Inr (Some d) \<longrightarrow>
      extract_loop env fl ltu st (annot # rest) = Inl AssertionError) \<and>
   (ed_feature_inds d = Some inds \<and> ref_feature_inds st = Some inds \<longrightarrow>
      check_feature_inds st d = Inr st \<and> aggregate_file st filename d \<noteq> Inl AssertionError)"
proof (intro conjI impI)
  assume "ed_feature_inds d = Some inds \<and> ref_feature_inds st = None \<and>
      aggregate_file st filename d = Inr st'"
  then show "ref_feature_inds st' = Some inds"
    using aggregate_file_ref[of st filename d st'] by simp
next
  assume "ed_feature_inds d = None \<and> aggregate_file st filename d = Inr st'"
  then show "ref_feature_inds st' = ref_feature_inds st"
    using aggregate_file_ref[of st filename d st'] by (simp split: option.splits)
next
  assume "ref_feature_inds st = Some ref \<and> aggregate_file st filename d = Inr st'"
  then show "ref_feature_inds st' = Some ref"
    using aggregate_file_ref[of st filename d st'] by simp
next
  assume "ed_feature_inds d = Some inds \<and> ref_feature_inds st = Some ref \<and> inds \<noteq> ref"
  then show "aggregate_file st filename d = Inl AssertionError"
    by (simp add: aggregate_file_mismatch)
next
  assume "ed_feature_inds d = Some inds \<and> ref_feature_inds st = Some ref \<and> inds \<noteq> ref \<and>
    snd (from_file env fl (ad_filename annot) (ad_labels annot) (ad_onsets_Hz annot)
           (ad_offsets_Hz annot) ltu) = Inr (Some d)"
  then show "extract_loop env fl ltu st (annot # rest) = Inl AssertionError"
    by (simp add: extract_step_def aggregate_file_mismatch)
next
  assume a: "ed_feature_inds d = Some inds \<and> ref_feature_inds st = Some inds"
  then show "check_feature_inds st d = Inr st"
    using aggregate_file_same[of d inds st filename] by simp
  from a show "aggregate_file st filename d \<noteq> Inl AssertionError"
    using aggregate_file_same[of d inds st filename] by simp
qed

theorem C2_feature_inds_reference_witness:
  "(case extract_loop ex_env [''mean spectrum''] ''ab'' init_extract_locals [ex_file_A] of
      Inr st \<Rightarrow> ref_feature_inds st | Inl e \<Rightarrow> None) = Some [0, 0] \<and>
   (case snd (from_file ex_env [''mean spectrum''] (ad_filename ex_file_B) (ad_labels ex_file_B)
                (ad_onsets_Hz ex_file_B) (ad_offsets_Hz ex_file_B) ''ab'') of
      Inr (Some d) \<Rightarrow> ed_feature_inds d | _ \<Rightarrow> None) = Some [0, 0, 0] \<and>
   (case extract_loop ex_env [''mean spectrum''] ''ab'' init_extract_locals [ex_file_A] of
      Inr st \<Rightarrow> extract_loop ex_env [''mean spectrum''] ''ab'' st [ex_file_B]
    | Inl e \<Rightarrow> Inl e) = Inl AssertionError"
proof -
  let ?st = "\<lparr>all_labels = ''aab'', all_onsets_Hz = [0, 10, 20],
        all_offsets_Hz = [8, 18, 28], all_sampfreqs = [44100],
        songfiles = [''A.wav''], songfile_IDs = [0, 0, 0],
        songfile_ID_counter = 1, ref_feature_inds = Some [0, 0],
        features_from_all_files =
          Some (A2 2 [[Val 8, Val 8], [Val 8, Val 8], [Val (8 :: int), Val 8]]),
        neuralnet_inputs_all_files = None\<rparr>"
  let ?d = "\<lparr>ed_labels = ''ba'', ed_onsets_Hz = [20, 60],
           ed_offsets_Hz = [32, 72],
           ed_features_arr =
             Some (A2 3 [[Val 12, Val 12, Val 12], [Val 12, Val 12, Val (12 :: int)]]),
           ed_feature_inds = Some [0, 0, 0],
           ed_neuralnet_inputs_dict = None, ed_samp_freq = 44100\<rparr>"
  have a: "extract_loop ex_env [''mean spectrum''] ''ab'' init_extract_locals [ex_file_A] = Inr ?st"
    by code_simp
  have b: "snd (from_file ex_env [''mean spectrum''] (ad_filename ex_file_B) (ad_labels ex_file_B)
                (ad_onsets_Hz ex_file_B) (ad_offsets_Hz ex_file_B) ''ab'') = Inr (Some ?d)"
    by code_simp
  have h: "ed_feature_inds ?d = Some [0, 0, 0] \<and> ref_feature_inds ?st = Some [0, 0] \<and>
           [0, 0, 0] \<noteq> [0, 0 :: nat]"
    by simp
  from C2_feature_inds_reference[where d = ?d and inds = "[0, 0, 0]" and st = ?st
      and ref = "[0, 0]" and env = ex_env and fl = "[''mean spectrum'']" and annot = ex_file_B
      and ltu = "''ab''" and rest = "[]"] h b
  have c: "extract_loop ex_env [''mean spectrum''] ''ab'' ?st [ex_file_B] = Inl AssertionError"
    by blast
  show ?thesis
    unfolding a b using c by simp
qed

subsection \<open>The number of samples\<close>

lemma concatenate_list_from_error: "concatenate_list_from a bs = Inl e \<Longrightarrow> e = ValueError"
  by (induction bs arbitrary: a) (auto split: sum.splits dest: concatenate_axis0_error)

lemma concatenate_list_error: "concatenate_list as = Inl e \<Longrightarrow> e = ValueError"
  by (cases as) (auto dest: concatenate_list_from_error)

lemma concatenate_inputs_error: "concatenate_inputs al = Inl e \<Longrightarrow> e = ValueError"
  by (induction al arbitrary: e rule: concatenate_inputs.induct)
     (auto split: sum.splits dest: concatenate_list_error)

lemma concatenate_inputs_length: "concatenate_inputs al = Inr nn \<Longrightarrow> length nn = length al"
  by (induction al arbitrary: nn rule: concatenate_inputs.induct)
     (auto split: sum.splits)

lemma num_samples_features:
  assumes "features_from_all_files st = Some features"
    and "neuralnet_inputs_all_files st = None \<or>
         (\<exists>all_nn nn. neuralnet_inputs_all_files st = Some all_nn \<and> concatenate_inputs all_nn = Inr nn)"
  shows "num_samples st = Inr (Some (shape0 features))"
  using assms by (auto simp: num_samples_def)

lemma num_samples_one_tensor:
  assumes "features_from_all_files st = None"
    and "neuralnet_inputs_all_files st = Some [(input_type, input_list)]"
    and "concatenate_list input_list = Inr tensor"
  shows "num_samples st = Inr (Some (shape0 tensor))"
  using assms by (simp add: num_samples_def neuralnet_num_samples_def)

lemma num_samples_ambiguous:
  assumes "features_from_all_files st = None"
    and "neuralnet_inputs_all_files st = Some all_nn" and "1 < length all_nn"
  shows "num_samples st = Inl ValueError"
proof (cases "concatenate_inputs all_nn")
  case (Inl e)
  then have "e = ValueError" by (rule concatenate_inputs_error)
  with Inl assms show ?thesis by (simp add: num_samples_def)
next
  case (Inr nn)
  then have "length nn = length all_nn" by (rule concatenate_inputs_length)
  with Inr assms show ?thesis by (simp add: num_samples_def neuralnet_num_samples_def)
qed

text \<open>
  C7. The number of samples: the number of rows of the feature matrix when there is one
  (and the neural-net inputs, if any, can be concatenated); otherwise, with inputs
  under exactly one name, the leading dimension of that concatenated input; with inputs
  under more than one name and no feature matrix, a ValueError.
\<close>

theorem C7_num_samples:
  "(features_from_all_files st = Some features \<and> neuralnet_inputs_all_files st = None \<longrightarrow>
      num_samples st = Inr (Some (shape0 features))) \<and>
   (features_from_all_files st = Some features \<and> neuralnet_inputs_all_files st = Some all_nn \<and>
    concatenate_inputs all_nn = Inr nn \<longrightarrow>
      num_samples st = Inr (Some (shape0 features))) \<and>
   (features_from_all_files st = None \<and>
    neuralnet_inputs_all_files st = Some [(input_type, input_list)] \<and>
    concatenate_list input_list = Inr tensor \<longrightarrow>
      num_samples st = Inr (Some (shape0 tensor))) \<and>
   (features_from_all_files st = None \<and> neuralnet_inputs_all_files st = Some all_nn \<and>
    1 < length all_nn \<longrightarrow>
      num_samples st = Inl ValueError)"
  by (intro conjI impI)
     (auto intro: num_samples_features num_samples_one_tensor num_samples_ambiguous)

theorem C7_num_samples_witness:
  "(case extract_loop ex_env [''pre duration'', ''amplitude''] ''ab'' init_extract_locals
           [ex_file_A, ex_file_B] of
      Inr st \<Rightarrow> num_samples st | Inl e \<Rightarrow> Inl e) = Inr (Some 5) \<and>
   (case extract_loop ex_env [''flatwindow''] ''ab'' init_extract_locals
           [ex_file_A, ex_file_B] of
      Inr st \<Rightarrow> num_samples st | Inl e \<Rightarrow> Inl e) = Inr (Some 5) \<and>
   (case extract_loop ex_env [''flatwindow'', ''spectrogram''] ''ab'' init_extract_locals
           [ex_file_A, ex_file_B] of
      Inr st \<Rightarrow> num_samples st | Inl e \<Rightarrow> Inl KeyError) = Inl ValueError"
proof -
  let ?F = "A2 2 [[Val 8, Val 16], [Val 8, Val 16], [Val 8, Val 16],
              [Val 12, Val 24], [Val 12, Val (24 :: int)]]"
  let ?s1 = "\<lparr>all_labels = ''aabba'', all_onsets_Hz = [0, 10, 20, 20, 60],
        all_offsets_Hz = [8, 18, 28, 32, 72],
        all_sampfreqs = [44100, 44100], songfiles = [''A.wav'', ''B.wav''],
        songfile_IDs = [0, 0, 0, 1, 1], songfile_ID_counter = 2,
        ref_feature_inds = Some [0, 1],
        features_from_all_files = Some ?F,
        neuralnet_inputs_all_files = None\<rparr>"
  let ?fw = "[A2 2 [[Val 0, Val 8], [Val 10, Val 18], [Val 20, Val 28]],
              A2 2 [[Val 20, Val 32], [Val 60, Val (72 :: int)]]]"
  let ?T = "A2 2 [[Val 0, Val 8], [Val 10, Val 18], [Val 20, Val 28],
              [Val 20, Val 32], [Val 60, Val (72 :: int)]]"
  let ?s2 = "\<lparr>all_labels = ''aabba'', all_onsets_Hz = [0, 10, 20, 20, 60],
        all_offsets_Hz = [8, 18, 28, 32, 72],
        all_sampfreqs = [44100, 44100], songfiles = [''A.wav'', ''B.wav''],
        songfile_IDs = [0, 0, 0, 1, 1], songfile_ID_counter = 2,
        ref_feature_inds = None, features_from_all_files = None,
        neuralnet_inputs_all_files = Some [(''flatwindow'', ?fw)]\<rparr>"
  let ?two = "[(''flatwindow'', ?fw),
            (''spectrogram'',
             [A2 1 [[Val 8], [Val 8], [Val 8]], A2 1 [[Val 12], [Val 12]]])]"
  let ?s3 = "\<lparr>all_labels = ''aabba'', all_onsets_Hz = [0, 10, 20, 20, 60],
        all_offsets_Hz = [8, 18, 28, 32, 72],
        all_sampfreqs = [44100, 44100], songfiles = [''A.wav'', ''B.wav''],
        songfile_IDs = [0, 0, 0, 1, 1], songfile_ID_counter = 2,
        ref_feature_inds = None, features_from_all_files = None,
        neuralnet_inputs_all_files = Some ?two\<rparr>"
  have r1: "extract_loop ex_env [''pre duration'', ''amplitude''] ''ab'' init_extract_locals
           [ex_file_A, ex_file_B] = Inr ?s1"
    by code_simp
  have r2: "extract_loop ex_env [''flatwindow''] ''ab'' init_extract_locals
           [ex_file_A, ex_file_B] = Inr ?s2"
    by code_simp
  have r3: "extract_loop ex_env [''flatwindow'', ''spectrogram''] ''ab'' init_extract_locals
           [ex_file_A, ex_file_B] = Inr ?s3"
    by code_simp
  have h1: "features_from_all_files ?s1 = Some ?F \<and> neuralnet_inputs_all_files ?s1 = None"
    by simp
  have h2: "features_from_all_files ?s2 = None \<and>
    neuralnet_inputs_all_files ?s2 = Some [(''flatwindow'', ?fw)] \<and>
    concatenate_list ?fw = Inr ?T"
    by simp
  have h3: "features_from_all_files ?s3 = None \<and> neuralnet_inputs_all_files ?s3 = Some ?two \<and>
    1 < length ?two"
    by simp
  from C7_num_samples[where st = ?s1 and features = ?F] h1
  have n1: "num_samples ?s1 = Inr (Some (shape0 ?F))" by blast
  from C7_num_samples[where st = ?s2 and input_type = "''flatwindow''" and input_list = ?fw
      and tensor = ?T] h2
  have n2: "num_samples ?s2 = Inr (Some (shape0 ?T))" by blast
  from C7_num_samples[where st = ?s3 and all_nn = ?two] h3
  have n3: "num_samples ?s3 = Inl ValueError" by blast
  show ?thesis
    unfolding r1 r2 r3 using n1 n2 n3 by simp
qed

subsection \<open>Accumulation across files\<close>


















subsection \<open>The call of \<open>make_syls\<close>\<close>

lemma ensure_syls_cases:
  "ensure_syls env audio labels ons offs msk l = Inr (evs, l1) \<Longrightarrow>
     (syls l \<noteq> None \<and> evs = [] \<and> l1 = l) \<or>
     (syls l = None \<and> evs = [MakeSyls] \<and> syls l1 \<noteq> None)"
  by (auto simp: ensure_syls_def split: option.splits sum.splits prod.splits)

lemma append_single_syls: "append_single i l = Inr l' \<Longrightarrow> syls l' = syls l"
  by (auto simp: append_single_def Let_def split: option.splits sum.splits if_splits)

lemma single_syl_feature_bound:
  "syls l \<noteq> None \<Longrightarrow> fst (single_syl_feature env audio labels ons offs msk f i l) = []"
  by (auto simp: single_syl_feature_def ensure_syls_def split: sum.splits prod.splits)

lemma single_syl_feature_events:
  "fst (single_syl_feature env audio labels ons offs msk f i l) = [] \<or>
   fst (single_syl_feature env audio labels ons offs msk f i l) = [MakeSyls]"
  by (auto simp: single_syl_feature_def split: sum.splits prod.splits dest: ensure_syls_cases)

lemma single_syl_feature_kept:
  assumes "syls l = Some ss"
    and "snd (single_syl_feature env audio labels ons offs msk f i l) = Inr l'"
  shows "syls l' = Some ss"
  using assms
  by (auto simp: single_syl_feature_def ensure_syls_def Let_def
      split: sum.splits prod.splits dest!: append_single_syls)

lemma single_syl_feature_built:
  assumes "syls l = None"
    and "snd (single_syl_feature env audio labels ons offs msk f i l) = Inr l'"
  shows "fst (single_syl_feature env audio labels ons offs msk f i l) = [MakeSyls] \<and>
         syls l' \<noteq> None"
proof -
  from assms(2) obtain evs l1 where
    e: "ensure_syls env audio labels ons offs msk l = Inr (evs, l1)"
    by (auto simp: single_syl_feature_def split: sum.splits prod.splits)
  with assms(1) have b: "evs = [MakeSyls]" "syls l1 \<noteq> None"
    using ensure_syls_cases[OF e] by auto
  from assms(2) e b show ?thesis
    by (auto simp: single_syl_feature_def Let_def split: sum.splits prod.splits
        dest!: append_single_syls)
qed

lemma multiple_syl_feature_syls:
  "multiple_syl_feature ons offs msk g i l = Inr l' \<Longrightarrow> syls l' = syls l"
  by (auto simp: multiple_syl_feature_def Let_def split: option.splits sum.splits)

lemma neural_net_feature_syls:
  "neural_net_feature audio labels ons offs msk h name l = Inr l' \<Longrightarrow> syls l' = syls l"
  by (auto simp: neural_net_feature_def Let_def split: option.splits sum.splits prod.splits)

lemma feature_step_not_single:
  assumes "single_syl_features_switch_case_dict env (snd p) = None"
  shows "fst (feature_step env audio labels ons offs msk l p) = [] \<and>
         (snd (feature_step env audio labels ons offs msk l p) = Inr l' \<longrightarrow> syls l' = syls l)"
  using assms
  by (cases p)
     (auto simp: feature_step_def split: option.splits
        dest: multiple_syl_feature_syls neural_net_feature_syls)

lemma feature_step_bound:
  assumes "syls l = Some ss"
  shows "fst (feature_step env audio labels ons offs msk l p) = [] \<and>
         (snd (feature_step env audio labels ons offs msk l p) = Inr l' \<longrightarrow> syls l' = Some ss)"
proof (cases "single_syl_features_switch_case_dict env (snd p)")
  case None
  from feature_step_not_single[OF None, of audio labels ons offs msk l l'] assms
  show ?thesis by simp
next
  case (Some f)
  with assms show ?thesis
    by (cases p)
       (auto simp: feature_step_def single_syl_feature_bound dest: single_syl_feature_kept)
qed

lemma feature_step_single_unbound:
  assumes "syls l = None" and "single_syl_features_switch_case_dict env (snd p) = Some f"
    and "snd (feature_step env audio labels ons offs msk l p) = Inr l'"
  shows "fst (feature_step env audio labels ons offs msk l p) = [MakeSyls] \<and> syls l' \<noteq> None"
  using assms
  by (cases p) (auto simp: feature_step_def dest: single_syl_feature_built)

lemma feature_step_events:
  "fst (feature_step env audio labels ons offs msk l p) = [] \<or>
   fst (feature_step env audio labels ons offs msk l p) = [MakeSyls]"
proof (cases p)
  case (Pair i name)
  show ?thesis
  proof (cases "single_syl_features_switch_case_dict env name")
    case None
    then show ?thesis by (simp add: Pair feature_step_def split: option.splits)
  next
    case (Some f)
    with single_syl_feature_events[of env audio labels ons offs msk f i l] show ?thesis
      by (simp add: Pair feature_step_def)
  qed
qed

lemma feature_step_make_syls:
  "feature_step (env\<lparr>make_syls := m\<rparr>) audio labels ons offs msk l p
     = feature_step env audio labels ons offs msk l p" if "syls l \<noteq> None"
  using that
  by (cases p)
     (auto simp: feature_step_def single_syl_feature_def ensure_syls_def
        split: option.splits)

lemma feature_loop_Cons:
  "feature_loop env audio labels ons offs msk l (p # ps) =
     (case snd (feature_step env audio labels ons offs msk l p) of
        Inl e \<Rightarrow> (fst (feature_step env audio labels ons offs msk l p), Inl e)
      | Inr l' \<Rightarrow>
         (fst (feature_step env audio labels ons offs msk l p) @
            fst (feature_loop env audio labels ons offs msk l' ps),
          snd (feature_loop env audio labels ons offs msk l' ps)))"
  by (cases "feature_step env audio labels ons offs msk l p")
     (auto split: sum.splits prod.splits)

lemma feature_loop_raise:
  "snd (feature_step env audio labels ons offs msk l p) = Inl e \<Longrightarrow>
     feature_loop env audio labels ons offs msk l (p # ps)
       = (fst (feature_step env audio labels ons offs msk l p), Inl e)"
  by (simp only: feature_loop_Cons sum.case)

lemma feature_loop_continue:
  "snd (feature_step env audio labels ons offs msk l p) = Inr l1 \<Longrightarrow>
     feature_loop env audio labels ons offs msk l (p # ps)
       = (fst (feature_step env audio labels ons offs msk l p) @
            fst (feature_loop env audio labels ons offs msk l1 ps),
          snd (feature_loop env audio labels ons offs msk l1 ps))"
  by (simp only: feature_loop_Cons sum.case)

lemma feature_loop_bound:
  assumes "syls l = Some ss"
  shows "fst (feature_loop env audio labels ons offs msk l ps) = [] \<and>
         (snd (feature_loop env audio labels ons offs msk l ps) = Inr l' \<longrightarrow> syls l' = Some ss)"
  using assms
proof (induction ps arbitrary: l)
  case Nil
  then show ?case by auto
next
  case (Cons p ps)
  have b1: "fst (feature_step env audio labels ons offs msk l p) = []"
    using feature_step_bound[OF Cons.prems] by blast
  show ?case
  proof (cases "snd (feature_step env audio labels ons offs msk l p)")
    case (Inl e)
    show ?thesis unfolding feature_loop_raise[OF Inl] using b1 by simp
  next
    case (Inr l1)
    have "syls l1 = Some ss"
      using feature_step_bound[OF Cons.prems, of env audio labels ons offs msk p l1] Inr by blast
    from Cons.IH[OF this] show ?thesis
      unfolding feature_loop_continue[OF Inr] using b1 by simp
  qed
qed


lemma feature_loop_not_single:
  assumes "\<forall>p \<in> set ps. single_syl_features_switch_case_dict env (snd p) = None"
  shows "fst (feature_loop env audio labels ons offs msk l ps) = [] \<and>
         (snd (feature_loop env audio labels ons offs msk l ps) = Inr l' \<longrightarrow> syls l' = syls l)"
  using assms
proof (induction ps arbitrary: l)
  case Nil
  then show ?case by auto
next
  case (Cons p ps)
  then have n: "single_syl_features_switch_case_dict env (snd p) = None" by simp
  have b1: "fst (feature_step env audio labels ons offs msk l p) = []"
    using feature_step_not_single[OF n] by blast
  show ?case
  proof (cases "snd (feature_step env audio labels ons offs msk l p)")
    case (Inl e)
    show ?thesis unfolding feature_loop_raise[OF Inl] using b1 by simp
  next
    case (Inr l1)
    have s: "syls l1 = syls l"
      using feature_step_not_single[OF n, of audio labels ons offs msk l l1] Inr by blast
    from Cons.prems have "\<forall>p \<in> set ps. single_syl_features_switch_case_dict env (snd p) = None"
      by simp
    from Cons.IH[OF this, of l1] show ?thesis
      unfolding feature_loop_continue[OF Inr] using b1 s by simp
  qed
qed

lemma feature_loop_at_most_once:
  "length (filter (\<lambda>e. e = MakeSyls) (fst (feature_loop env audio labels ons offs msk l ps))) \<le> 1"
proof (induction ps arbitrary: l)
  case Nil
  then show ?case by simp
next
  case (Cons p ps)
  note ev = feature_step_events[of env audio labels ons offs msk l p]
  show ?case
  proof (cases "snd (feature_step env audio labels ons offs msk l p)")
    case (Inl e)
    show ?thesis unfolding feature_loop_raise[OF Inl] using ev by auto
  next
    case (Inr l1)
    show ?thesis
    proof (cases "syls l1")
      case None
      have unbound: "syls l = None"
      proof (rule ccontr)
        assume "syls l \<noteq> None"
        then obtain ss where "syls l = Some ss" by auto
        from feature_step_bound[OF this, of env audio labels ons offs msk p l1] Inr None
        show False by simp
      qed
      have "fst (feature_step env audio labels ons offs msk l p) = []"
      proof (cases "single_syl_features_switch_case_dict env (snd p)")
        case None
        from feature_step_not_single[OF None] show ?thesis by blast
      next
        case (Some f)
        from feature_step_single_unbound[OF unbound Some Inr] \<open>syls l1 = None\<close>
        show ?thesis by simp
      qed
      with Cons.IH[of l1] show ?thesis
        unfolding feature_loop_continue[OF Inr] by simp
    next
      case (Some ss)
      from feature_loop_bound[OF Some, of env audio labels ons offs msk ps]
      have "fst (feature_loop env audio labels ons offs msk l1 ps) = []" by blast
      with ev show ?thesis
        unfolding feature_loop_continue[OF Inr] by auto
    qed
  qed
qed

lemma feature_loop_built:
  assumes "syls l = None"
    and "snd (feature_loop env audio labels ons offs msk l ps) = Inr l'"
    and "\<exists>p \<in> set ps. single_syl_features_switch_case_dict env (snd p) \<noteq> None"
  shows "fst (feature_loop env audio labels ons offs msk l ps) = [MakeSyls] \<and> syls l' \<noteq> None"
  using assms
proof (induction ps arbitrary: l)
  case Nil
  then show ?case by simp
next
  case (Cons p ps)
  have "\<exists>l1. snd (feature_step env audio labels ons offs msk l p) = Inr l1"
  proof (cases "snd (feature_step env audio labels ons offs msk l p)")
    case (Inl e)
    from Cons.prems(2) show ?thesis unfolding feature_loop_raise[OF Inl] by simp
  next
    case (Inr l1)
    then show ?thesis by simp
  qed
  then obtain l1 where
    s: "snd (feature_step env audio labels ons offs msk l p) = Inr l1" ..
  from Cons.prems(2) have
    r: "snd (feature_loop env audio labels ons offs msk l1 ps) = Inr l'"
    unfolding feature_loop_continue[OF s] by simp
  show ?case
  proof (cases "single_syl_features_switch_case_dict env (snd p)")
    case None
    from feature_step_not_single[OF None, of audio labels ons offs msk l l1] s Cons.prems(1)
    have e: "fst (feature_step env audio labels ons offs msk l p) = []" and n: "syls l1 = None"
      by simp_all
    from Cons.prems(3) None
    have "\<exists>p \<in> set ps. single_syl_features_switch_case_dict env (snd p) \<noteq> None" by auto
    from Cons.IH[OF n r this] show ?thesis
      unfolding feature_loop_continue[OF s] using e by simp
  next
    case (Some f)
    from feature_step_single_unbound[OF Cons.prems(1) Some s]
    have e: "fst (feature_step env audio labels ons offs msk l p) = [MakeSyls]"
      and "syls l1 \<noteq> None" by simp_all
    then obtain ss where ss: "syls l1 = Some ss" by auto
    from feature_loop_bound[OF ss, of env audio labels ons offs msk ps l'] r
    show ?thesis
      unfolding feature_loop_continue[OF s] using e ss by simp
  qed
qed

lemma from_file_events:
  "fst (from_file env fl filename labels ons offs ltu) = [] \<or>
   fst (from_file env fl filename labels ons offs ltu) = [Warn filename ltu] \<or>
   (\<exists>msk. fst (from_file env fl filename labels ons offs ltu) =
      fst (feature_loop env (load_audio env filename) (labels_list labels) ons offs msk
             init_locals (enumerate 0 fl)))"
proof (cases "use_these_labels_bool labels ltu")
  case (Inl e)
  then show ?thesis by (simp add: from_file_def)
next
  case (Inr msk)
  show ?thesis
  proof (cases "True \<in> set msk")
    case False
    with Inr show ?thesis by (simp add: from_file_def)
  next
    case True
    with Inr have "fst (from_file env fl filename labels ons offs ltu) =
      fst (feature_loop env (load_audio env filename) (labels_list labels) ons offs msk
             init_locals (enumerate 0 fl))"
      by (simp add: from_file_def Let_def split: sum.splits prod.splits)
    then show ?thesis by blast
  qed
qed

lemma from_file_loop:
  assumes "snd (from_file env fl filename labels ons offs ltu) = Inr (Some d)"
  shows "\<exists>msk l. fst (from_file env fl filename labels ons offs ltu) =
      fst (feature_loop env (load_audio env filename) (labels_list labels) ons offs msk
             init_locals (enumerate 0 fl)) \<and>
      snd (feature_loop env (load_audio env filename) (labels_list labels) ons offs msk
             init_locals (enumerate 0 fl)) = Inr l"
proof (cases "use_these_labels_bool labels ltu")
  case (Inl e)
  with assms show ?thesis by (simp add: from_file_def)
next
  case (Inr msk)
  show ?thesis
  proof (cases "True \<in> set msk")
    case False
    with Inr assms show ?thesis by (simp add: from_file_def)
  next
    case True
    with Inr assms have "fst (from_file env fl filename labels ons offs ltu) =
      fst (feature_loop env (load_audio env filename) (labels_list labels) ons offs msk
             init_locals (enumerate 0 fl)) \<and>
      (\<exists>l. snd (feature_loop env (load_audio env filename) (labels_list labels) ons offs msk
             init_locals (enumerate 0 fl)) = Inr l)"
      by (simp add: from_file_def Let_def split: sum.splits prod.splits)
    then show ?thesis by blast
  qed
qed

lemma snd_set_enumerate: "snd ` set (enumerate n xs) = set xs"
  by (metis map_snd_enumerate set_map)

text \<open>
  C9. In one call of \<open>_from_file\<close> \<open>make_syls\<close> is called at most once, and not at all
  when no requested feature is a single-syllable one; a call that returns a dictionary
  for a list with a single-syllable feature has called it exactly once. In the loop,
  a single-syllable feature reached with \<open>syls\<close> unbound builds it, any other feature
  leaves \<open>syls\<close> as it is, and once \<open>syls\<close> is bound no feature calls \<open>make_syls\<close> or
  changes \<open>syls\<close>: the step does not depend on \<open>make_syls\<close> any more.
\<close>

theorem C9_spectrograms_once:
  "length (filter (\<lambda>e. e = MakeSyls) (fst (from_file env fl filename labels ons offs ltu))) \<le> 1 \<and>
   ((\<forall>name \<in> set fl. single_syl_features_switch_case_dict env name = None) \<longrightarrow>
      MakeSyls \<notin> set (fst (from_file env fl filename labels ons offs ltu))) \<and>
   (snd (from_file env fl filename labels ons offs ltu) = Inr (Some d) \<and>
    (\<exists>name \<in> set fl. single_syl_features_switch_case_dict env name \<noteq> None) \<longrightarrow>
      fst (from_file env fl filename labels ons offs ltu) = [MakeSyls]) \<and>
   (syls l = None \<and> single_syl_features_switch_case_dict env (snd p) = Some f \<and>
    snd (feature_step env audio ls ons offs msk l p) = Inr l' \<longrightarrow>
      fst (feature_step env audio ls ons offs msk l p) = [MakeSyls] \<and> syls l' \<noteq> None) \<and>
   (single_syl_features_switch_case_dict env (snd p) = None \<longrightarrow>
      fst (feature_step env audio ls ons offs msk l p) = [] \<and>
      (snd (feature_step env audio ls ons offs msk l p) = Inr l' \<longrightarrow> syls l' = syls l)) \<and>
   (syls l = Some ss \<longrightarrow>
      fst (feature_step env audio ls ons offs msk l p) = [] \<and>
      (snd (feature_step env audio ls ons offs msk l p) = Inr l' \<longrightarrow> syls l' = Some ss) \<and>
      feature_step (env\<lparr>make_syls := m\<rparr>) audio ls ons offs msk l p
        = feature_step env audio ls ons offs msk l p)"
proof (intro conjI impI)
  show "length (filter (\<lambda>e. e = MakeSyls)
          (fst (from_file env fl filename labels ons offs ltu))) \<le> 1"
    using from_file_events[of env fl filename labels ons offs ltu]
      feature_loop_at_most_once[of env "load_audio env filename" "labels_list labels" ons offs _
        init_locals "enumerate 0 fl"]
    by auto
next
  assume a: "\<forall>name \<in> set fl. single_syl_features_switch_case_dict env name = None"
  have "\<forall>p \<in> set (enumerate 0 fl). single_syl_features_switch_case_dict env (snd p) = None"
  proof
    fix p assume "p \<in> set (enumerate 0 fl)"
    then have "snd p \<in> set fl" using snd_set_enumerate[of 0 fl] by blast
    with a show "single_syl_features_switch_case_dict env (snd p) = None" by simp
  qed
  from feature_loop_not_single[OF this, of "load_audio env filename" "labels_list labels" ons offs]
    from_file_events[of env fl filename labels ons offs ltu]
  show "MakeSyls \<notin> set (fst (from_file env fl filename labels ons offs ltu))"
    by auto
next
  assume a: "snd (from_file env fl filename labels ons offs ltu) = Inr (Some d) \<and>
    (\<exists>name \<in> set fl. single_syl_features_switch_case_dict env name \<noteq> None)"
  then obtain msk l0 where
    e: "fst (from_file env fl filename labels ons offs ltu) =
      fst (feature_loop env (load_audio env filename) (labels_list labels) ons offs msk
             init_locals (enumerate 0 fl))" and
    r: "snd (feature_loop env (load_audio env filename) (labels_list labels) ons offs msk
             init_locals (enumerate 0 fl)) = Inr l0"
    using from_file_loop[of env fl filename labels ons offs ltu d] by blast
  from a obtain name where "name \<in> set fl"
    "single_syl_features_switch_case_dict env name \<noteq> None" by blast
  then have "\<exists>p \<in> set (enumerate 0 fl). single_syl_features_switch_case_dict env (snd p) \<noteq> None"
    using snd_set_enumerate[of 0 fl] by force
  from feature_loop_built[OF _ r this] e
  show "fst (from_file env fl filename labels ons offs ltu) = [MakeSyls]"
    by (simp add: init_locals_def)
next
  assume "syls l = None \<and> single_syl_features_switch_case_dict env (snd p) = Some f \<and>
    snd (feature_step env audio ls ons offs msk l p) = Inr l'"
  then have "fst (feature_step env audio ls ons offs msk l p) = [MakeSyls] \<and> syls l' \<noteq> None"
    using feature_step_single_unbound[of l env p f audio ls ons offs msk l'] by blast
  then show "fst (feature_step env audio ls ons offs msk l p) = [MakeSyls]" "syls l' \<noteq> None"
    by simp_all
next
  assume n: "single_syl_features_switch_case_dict env (snd p) = None"
  from feature_step_not_single[OF n, of audio ls ons offs msk l l']
  show "fst (feature_step env audio ls ons offs msk l p) = []" by simp
  assume "snd (feature_step env audio ls ons offs msk l p) = Inr l'"
  with feature_step_not_single[OF n, of audio ls ons offs msk l l']
  show "syls l' = syls l" by simp
next
  assume b: "syls l = Some ss"
  from feature_step_bound[OF b, of env audio ls ons offs msk p l']
  show "fst (feature_step env audio ls ons offs msk l p) = []" by simp
  from b show "feature_step (env\<lparr>make_syls := m\<rparr>) audio ls ons offs msk l p
        = feature_step env audio ls ons offs msk l p"
    by (simp add: feature_step_make_syls)
  assume "snd (feature_step env audio ls ons offs msk l p) = Inr l'"
  with feature_step_bound[OF b, of env audio ls ons offs msk p l']
  show "syls l' = Some ss" by simp
qed

theorem C9_spectrograms_once_witness:
  "fst (from_file ex_env [''pre duration'', ''spectral_vec3'', ''amplitude'']
          (ad_filename ex_file_A) (ad_labels ex_file_A) (ad_onsets_Hz ex_file_A)
          (ad_offsets_Hz ex_file_A) ''ab'') = [MakeSyls] \<and>
   MakeSyls \<notin> set (fst (from_file ex_env [''pre duration'', ''flatwindow'']
          (ad_filename ex_file_A) (ad_labels ex_file_A) (ad_onsets_Hz ex_file_A)
          (ad_offsets_Hz ex_file_A) ''ab''))"
proof -
  let ?d = "\<lparr>ed_labels = ''aab'', ed_onsets_Hz = [0, 10, 20],
           ed_offsets_Hz = [8, 18, 28],
           ed_features_arr =
             Some (A2 5
                [[Val 8, Val 8, Val 0, Val 1, Val 16],
                 [Val 8, Val 8, Val 0, Val 1, Val 16],
                 [Val 8, Val 8, Val 0, Val 1, Val (16 :: int)]]),
           ed_feature_inds = Some [0, 1, 1, 1, 2],
           ed_neuralnet_inputs_dict = None, ed_samp_freq = 44100\<rparr>"
  have s: "snd (from_file ex_env [''pre duration'', ''spectral_vec3'', ''amplitude'']
          (ad_filename ex_file_A) (ad_labels ex_file_A) (ad_onsets_Hz ex_file_A)
          (ad_offsets_Hz ex_file_A) ''ab'') = Inr (Some ?d)"
    by code_simp
  have e: "\<exists>name \<in> set [''pre duration'', ''spectral_vec3'', ''amplitude''].
             single_syl_features_switch_case_dict ex_env name \<noteq> None"
    by (simp add: ex_env_def)
  have n: "\<forall>name \<in> set [''pre duration'', ''flatwindow''].
             single_syl_features_switch_case_dict ex_env name = None"
    by (simp add: ex_env_def)
  note a = C9_spectrograms_once[where env = ex_env
      and fl = "[''pre duration'', ''spectral_vec3'', ''amplitude'']" and d = ?d
      and filename = "ad_filename ex_file_A" and labels = "ad_labels ex_file_A"
      and ons = "ad_onsets_Hz ex_file_A" and offs = "ad_offsets_Hz ex_file_A" and ltu = "''ab''",
      THEN conjunct2, THEN conjunct2, THEN conjunct1, THEN mp, OF conjI[OF s e]]
  note b = C9_spectrograms_once[where env = ex_env
      and fl = "[''pre duration'', ''flatwindow'']"
      and filename = "ad_filename ex_file_A" and labels = "ad_labels ex_file_A"
      and ons = "ad_onsets_Hz ex_file_A" and offs = "ad_offsets_Hz ex_file_A" and ltu = "''ab''",
      THEN conjunct2, THEN conjunct1, THEN mp, OF n]
  from a b show ?thesis by (rule conjI)
qed


subsection \<open>Where \<open>_from_file\<close> raises\<close>

lemma append_single_1d:
  assumes "features_arr l = Some (A1 xs)"
  shows "append_single i l = Inl NameError \<or> append_single i l = Inl ValueError"
proof (cases "ftr l")
  case None
  then show ?thesis by (simp add: append_single_def)
next
  case (Some v)
  show ?thesis
  proof (cases "curr_feature_arr l")
    case None
    with Some show ?thesis by (simp add: append_single_def Let_def)
  next
    case (Some cur)
    with \<open>ftr l = Some v\<close> assms show ?thesis
      by (cases cur; cases v) (simp_all add: append_single_def Let_def column_def)
  qed
qed

lemma single_syl_feature_1d:
  assumes "features_arr l = Some (A1 xs)"
  shows "\<exists>e. snd (single_syl_feature env audio ls ons offs msk f i l) = Inl e"
proof (cases "ensure_syls env audio ls ons offs msk l")
  case (Inl e)
  then show ?thesis by (simp add: single_syl_feature_def)
next
  case (Inr r)
  obtain evs l1 where r: "r = (evs, l1)" by (cases r)
  from Inr r assms have f: "features_arr l1 = Some (A1 xs)"
    by (auto simp: ensure_syls_def split: option.splits sum.splits prod.splits)
  show ?thesis
  proof (cases "syls l1")
    case None
    with Inr r show ?thesis by (simp add: single_syl_feature_def)
  next
    case (Some ss)
    show ?thesis
    proof (cases "syl_loop f (length ss) (None, ftr l1) (enumerate 0 ss)")
      case (Inl e)
      with Inr r Some show ?thesis by (simp add: single_syl_feature_def)
    next
      case (Inr st)
      obtain cur v where st: "st = (cur, v)" by (cases st)
      from f have "features_arr (l1\<lparr>curr_feature_arr := cur, ftr := v\<rparr>) = Some (A1 xs)"
        by simp
      from append_single_1d[OF this, of i] Inr st r Some
        \<open>ensure_syls env audio ls ons offs msk l = Inr r\<close>
      show ?thesis by (auto simp: single_syl_feature_def)
    qed
  qed
qed

lemma multiple_syl_feature_1d:
  assumes "features_arr l = Some (A1 xs)"
  shows "multiple_syl_feature ons offs msk g i l = Inl ValueError"
  using assms by (simp add: multiple_syl_feature_def Let_def column_def)

text \<open>
  Once \<open>features_arr\<close> is one-dimensional, every single- or multiple-syllable feature
  that follows raises.
\<close>

lemma one_dimensional_features_arr_blocks:
  assumes "features_arr l = Some (A1 xs)"
    and "single_syl_features_switch_case_dict env name \<noteq> None \<or>
         multiple_syl_features_switch_case_dict env name \<noteq> None"
  shows "\<exists>e. snd (feature_step env audio ls ons offs msk l (i, name)) = Inl e"
proof (cases "single_syl_features_switch_case_dict env name")
  case (Some f)
  with single_syl_feature_1d[OF assms(1), of env audio ls ons offs msk f i] show ?thesis
    by (simp add: feature_step_def)
next
  case None
  with assms(2) obtain g where "multiple_syl_features_switch_case_dict env name = Some g"
    by auto
  with None multiple_syl_feature_1d[OF assms(1)] show ?thesis
    by (simp add: feature_step_def)
qed

lemma syl_loop_no_spectrogram:
  assumes "\<forall>p \<in> set ps. spect (snd p) = None"
  shows "syl_loop f n st ps = Inr st"
  using assms by (induction ps) (auto simp: syl_step_def split: prod.splits)

text \<open>
  A single-syllable feature reached with \<open>ftr\<close> unbound, in a file none of whose
  syllables has a spectrogram, raises NameError.
\<close>

lemma no_spectrogram_raises:
  assumes "ensure_syls env audio ls ons offs msk l = Inr (evs, l1)"
    and "ftr l = None" and "syls l1 = Some ss"
    and "\<forall>s \<in> set ss. spect s = None"
  shows "single_syl_feature env audio ls ons offs msk f i l = (evs, Inl NameError)"
proof -
  from assms(1,2) have v: "ftr l1 = None"
    by (auto simp: ensure_syls_def split: option.splits sum.splits prod.splits)
  have "\<forall>p \<in> set (enumerate 0 ss). spect (snd p) = None"
  proof
    fix p assume "p \<in> set (enumerate 0 ss)"
    then have "snd p \<in> set ss"
      using snd_set_enumerate[of 0 ss] by blast
    with assms(4) show "spect (snd p) = None" by simp
  qed
  from syl_loop_no_spectrogram[OF this, of f "length ss" "(None, None)"] assms(1,3) v
  show ?thesis
    by (simp add: single_syl_feature_def append_single_def)
qed

text \<open>
  C1. With a scalar single-syllable feature first, the matrix starts as the 1-d array of
  line 583 and the next feature's \<open>np.concatenate(..., axis=1)\<close> raises ValueError: the
  list duration, spectral_vec3, amplitude, all single-syllable, gives no matrix. Such a
  feature alone gives a 1-d array, not a matrix of one column. With a
  multiple-syllable feature first the columns are assembled in the order of the list,
  with \<open>feature_inds = [0, 1, 1, 1, 2]\<close>.
\<close>

theorem C1_scalar_first_raises:
  "from_file ex_env [''duration'', ''spectral_vec3'', ''amplitude''] ''A.wav'' (LArr ''aabc'')
     [0, 10, 20, 30] [8, 18, 28, 38] ''ab'' = ([MakeSyls], Inl ValueError) \<and>
   from_file ex_env [''duration''] ''A.wav'' (LArr ''aabc'')
     [0, 10, 20, 30] [8, 18, 28, 38] ''ab''
     = ([MakeSyls],
        Inr (Some \<lparr>ed_labels = ''aab'', ed_onsets_Hz = [0, 10, 20], ed_offsets_Hz = [8, 18, 28],
                   ed_features_arr = Some (A1 [Val 8, Val 8, Val 8]),
                   ed_feature_inds = Some [0], ed_neuralnet_inputs_dict = None,
                   ed_samp_freq = 44100\<rparr>)) \<and>
   from_file ex_env [''pre duration'', ''spectral_vec3'', ''amplitude''] ''A.wav'' (LArr ''aabc'')
     [0, 10, 20, 30] [8, 18, 28, 38] ''ab''
     = ([MakeSyls],
        Inr (Some \<lparr>ed_labels = ''aab'', ed_onsets_Hz = [0, 10, 20], ed_offsets_Hz = [8, 18, 28],
                   ed_features_arr =
                     Some (A2 5
                        [[Val 8, Val 8, Val 0, Val 1, Val 16],
                         [Val 8, Val 8, Val 0, Val 1, Val 16],
                         [Val 8, Val 8, Val 0, Val 1, Val 16]]),
                   ed_feature_inds = Some [0, 1, 1, 1, 2],
                   ed_neuralnet_inputs_dict = None, ed_samp_freq = 44100\<rparr>))"
  by code_simp

text \<open>
  C5. When every retained segment of a file is too short for a spectrogram, \<open>ftr\<close> is
  never bound and \<open>np.isscalar(ftr)\<close> after the loop raises NameError: the file is
  aborted. When another segment of the file has a spectrogram, the short segment keeps
  its row, with not-a-number in the columns of every single-syllable feature.
\<close>

theorem C5_all_segments_short_raises:
  "from_file ex_env [''duration''] ''A.wav'' (LArr ''aabc'')
     [0, 10, 20, 30] [2, 12, 22, 38] ''ab'' = ([MakeSyls], Inl NameError) \<and>
   from_file ex_env [''pre duration'', ''spectral_vec3'', ''amplitude''] ''A.wav'' (LArr ''aabc'')
     [0, 10, 20, 30] [8, 12, 28, 38] ''ab''
     = ([MakeSyls],
        Inr (Some \<lparr>ed_labels = ''aab'', ed_onsets_Hz = [0, 10, 20], ed_offsets_Hz = [8, 12, 28],
                   ed_features_arr =
                     Some (A2 5
                        [[Val 8, Val 8, Val 0, Val 1, Val 16],
                         [Val 2, NaN, NaN, NaN, NaN],
                         [Val 8, Val 8, Val 0, Val 1, Val 16]]),
                   ed_feature_inds = Some [0, 1, 1, 1, 2],
                   ed_neuralnet_inputs_dict = None, ed_samp_freq = 44100\<rparr>))"
  by code_simp

subsection \<open>What a feature contributes, and what it depends on\<close>

lemma ensure_syls_cong:
  assumes "make_syls env1 = make_syls env2"
  shows "ensure_syls env1 audio ls ons offs msk l = ensure_syls env2 audio ls ons offs msk l"
  using assms by (simp add: ensure_syls_def split: option.splits sum.splits prod.splits)

lemma single_syl_feature_cong:
  assumes "make_syls env1 = make_syls env2"
  shows "single_syl_feature env1 audio ls ons offs msk f i l
           = single_syl_feature env2 audio ls ons offs msk f i l"
  by (simp add: single_syl_feature_def ensure_syls_cong[OF assms])

lemma feature_step_cong:
  assumes "make_syls env1 = make_syls env2"
    and "single_syl_features_switch_case_dict env1 (snd p)
           = single_syl_features_switch_case_dict env2 (snd p)"
    and "multiple_syl_features_switch_case_dict env1 (snd p)
           = multiple_syl_features_switch_case_dict env2 (snd p)"
    and "neural_net_features_switch_case_dict env1 (snd p)
           = neural_net_features_switch_case_dict env2 (snd p)"
  shows "feature_step env1 audio ls ons offs msk l p = feature_step env2 audio ls ons offs msk l p"
  using assms(2-4)
  by (cases p)
     (auto simp: feature_step_def single_syl_feature_cong[OF assms(1)] split: option.splits)

lemma feature_loop_cong:
  assumes "make_syls env1 = make_syls env2"
    and "\<forall>p \<in> set ps.
           single_syl_features_switch_case_dict env1 (snd p)
             = single_syl_features_switch_case_dict env2 (snd p) \<and>
           multiple_syl_features_switch_case_dict env1 (snd p)
             = multiple_syl_features_switch_case_dict env2 (snd p) \<and>
           neural_net_features_switch_case_dict env1 (snd p)
             = neural_net_features_switch_case_dict env2 (snd p)"
  shows "feature_loop env1 audio ls ons offs msk l ps = feature_loop env2 audio ls ons offs msk l ps"
  using assms(2)
proof (induction ps arbitrary: l)
  case Nil
  then show ?case by simp
next
  case (Cons p ps)
  then have
    s: "feature_step env1 audio ls ons offs msk l p = feature_step env2 audio ls ons offs msk l p"
    by (intro feature_step_cong assms(1)) simp_all
  from Cons have
    "\<And>l'. feature_loop env1 audio ls ons offs msk l' ps
            = feature_loop env2 audio ls ons offs msk l' ps"
    by simp
  with s show ?case
    by (simp split: prod.splits sum.splits)
qed

lemma from_file_cong:
  assumes "load_audio env1 filename = load_audio env2 filename"
    and "make_syls env1 = make_syls env2"
    and "\<forall>name \<in> set fl.
           single_syl_features_switch_case_dict env1 name
             = single_syl_features_switch_case_dict env2 name \<and>
           multiple_syl_features_switch_case_dict env1 name
             = multiple_syl_features_switch_case_dict env2 name \<and>
           neural_net_features_switch_case_dict env1 name
             = neural_net_features_switch_case_dict env2 name"
  shows "from_file env1 fl filename labels ons offs ltu
           = from_file env2 fl filename labels ons offs ltu"
proof -
  have "\<forall>p \<in> set (enumerate 0 fl).
           single_syl_features_switch_case_dict env1 (snd p)
             = single_syl_features_switch_case_dict env2 (snd p) \<and>
           multiple_syl_features_switch_case_dict env1 (snd p)
             = multiple_syl_features_switch_case_dict env2 (snd p) \<and>
           neural_net_features_switch_case_dict env1 (snd p)
             = neural_net_features_switch_case_dict env2 (snd p)"
  proof
    fix p assume "p \<in> set (enumerate 0 fl)"
    then have "snd p \<in> set fl" using snd_set_enumerate[of 0 fl] by blast
    with assms(3) show
      "single_syl_features_switch_case_dict env1 (snd p)
             = single_syl_features_switch_case_dict env2 (snd p) \<and>
           multiple_syl_features_switch_case_dict env1 (snd p)
             = multiple_syl_features_switch_case_dict env2 (snd p) \<and>
           neural_net_features_switch_case_dict env1 (snd p)
             = neural_net_features_switch_case_dict env2 (snd p)"
      by blast
  qed
  from feature_loop_cong[OF assms(2) this] assms(1) show ?thesis
    by (simp add: from_file_def Let_def split: sum.splits)
qed

text \<open>The array a single-syllable feature fills does not depend on the \<open>ftr\<close> left behind.\<close>

lemma syl_step_related:
  assumes "fst st1 = fst st2" and "fst st1 \<noteq> None \<longrightarrow> snd st1 = snd st2"
  shows "(\<exists>e. syl_step f n st1 p = Inl e \<and> syl_step f n st2 p = Inl e) \<or>
         (\<exists>st1' st2'. syl_step f n st1 p = Inr st1' \<and> syl_step f n st2 p = Inr st2' \<and>
            fst st1' = fst st2' \<and> (fst st1' \<noteq> None \<longrightarrow> snd st1' = snd st2'))"
  using assms
  by (cases p; cases st1; cases st2)
     (auto simp: syl_step_def Let_def split: option.splits sum.splits)

lemma syl_loop_related:
  assumes "fst st1 = fst st2" and "fst st1 \<noteq> None \<longrightarrow> snd st1 = snd st2"
  shows "(\<exists>e. syl_loop f n st1 ps = Inl e \<and> syl_loop f n st2 ps = Inl e) \<or>
         (\<exists>st1' st2'. syl_loop f n st1 ps = Inr st1' \<and> syl_loop f n st2 ps = Inr st2' \<and>
            fst st1' = fst st2' \<and> (fst st1' \<noteq> None \<longrightarrow> snd st1' = snd st2'))"
  using assms
proof (induction ps arbitrary: st1 st2)
  case Nil
  then show ?case by simp
next
  case (Cons p ps)
  from syl_step_related[OF Cons.prems, of f n p]
  show ?case
  proof (elim disjE exE conjE)
    fix e assume "syl_step f n st1 p = Inl e" "syl_step f n st2 p = Inl e"
    then show ?thesis by simp
  next
    fix st1' st2'
    assume s: "syl_step f n st1 p = Inr st1'" "syl_step f n st2 p = Inr st2'"
      and r: "fst st1' = fst st2'" "fst st1' \<noteq> None \<longrightarrow> snd st1' = snd st2'"
    from Cons.IH[OF r] s show ?thesis by simp
  qed
qed

lemma concatenate_axis1_A2:
  assumes "concatenate_axis1 (A2 n r) b = Inr c"
  shows "\<exists>w rows. b = A2 w rows \<and> length rows = length r \<and> c = A2 (n + w) (map2 (@) r rows)"
  using assms by (cases b) (auto split: if_splits)

lemma append_single_scalar:
  assumes "features_arr l = Some (A2 n r)" and "append_single i l = Inr l'"
    and "ftr l = Some (Scalar x)" and "curr_feature_arr l = Some cur"
  shows "\<exists>xs. cur = A1 xs \<and> length xs = length r \<and>
           features_arr l' = Some (A2 (n + 1) (map2 (@) r (map (\<lambda>x. [x]) xs))) \<and>
           feature_inds l' = feature_inds l @ [i]"
proof -
  from assms obtain F where
    F: "concatenate_newaxis_T (A2 n r) cur = Inr F" and
    l': "l' = l\<lparr>features_arr := Some F, feature_inds := feature_inds l @ [i]\<rparr>"
    by (auto simp: append_single_def Let_def split: sum.splits)
  from F obtain xs where xs: "cur = A1 xs" and
    F1: "concatenate_axis1 (A2 n r) (column xs) = Inr F"
    by (cases cur) auto
  from concatenate_axis1_A2[OF F1] have
    "length xs = length r" "F = A2 (n + 1) (map2 (@) r (map (\<lambda>x. [x]) xs))"
    by (auto simp: column_def)
  with xs l' show ?thesis by simp
qed

lemma append_single_vector:
  assumes "features_arr l = Some (A2 n r)" and "append_single i l = Inr l'"
    and "ftr l = Some (Vector v)" and "curr_feature_arr l = Some cur"
  shows "\<exists>w rows. cur = A2 w rows \<and> length rows = length r \<and>
           features_arr l' = Some (A2 (n + w) (map2 (@) r rows)) \<and>
           feature_inds l' = feature_inds l @ replicate (length v) i"
proof -
  from assms obtain F where
    F: "concatenate_axis1 (A2 n r) cur = Inr F" and
    l': "l' = l\<lparr>features_arr := Some F,
                 feature_inds := feature_inds l @ replicate (length v) i\<rparr>"
    by (auto simp: append_single_def Let_def split: sum.splits)
  from concatenate_axis1_A2[OF F] obtain w rows where
    "cur = A2 w rows" "length rows = length r" "F = A2 (n + w) (map2 (@) r rows)"
    by blast
  with l' show ?thesis by simp
qed

lemma append_single_bound:
  assumes "append_single i l = Inr l'"
  shows "\<exists>v cur. ftr l = Some v \<and> curr_feature_arr l = Some cur"
  using assms by (auto simp: append_single_def Let_def split: option.splits)

lemma append_single_independent:
  assumes f1: "features_arr la = Some (A2 n1 r1)" and f2: "features_arr lb = Some (A2 n2 r2)"
    and c: "curr_feature_arr la = curr_feature_arr lb" and v: "ftr la = ftr lb"
    and p1: "append_single i1 la = Inr la'" and p2: "append_single i2 lb = Inr lb'"
  shows "\<exists>w B k. length B = length r1 \<and> length B = length r2 \<and>
           features_arr la' = Some (A2 (n1 + w) (map2 (@) r1 B)) \<and>
           features_arr lb' = Some (A2 (n2 + w) (map2 (@) r2 B)) \<and>
           feature_inds la' = feature_inds la @ replicate k i1 \<and>
           feature_inds lb' = feature_inds lb @ replicate k i2"
proof -
  from append_single_bound[OF p1] obtain u cur where
    u1: "ftr la = Some u" and c1: "curr_feature_arr la = Some cur" by blast
  with c v have u2: "ftr lb = Some u" and c2: "curr_feature_arr lb = Some cur" by simp_all
  show ?thesis
  proof (cases u)
    case (Scalar x)
    from append_single_scalar[OF f1 p1 u1[unfolded Scalar] c1] obtain xs where
      a: "cur = A1 xs" "length xs = length r1"
        "features_arr la' = Some (A2 (n1 + 1) (map2 (@) r1 (map (\<lambda>x. [x]) xs)))"
        "feature_inds la' = feature_inds la @ [i1]"
      by blast
    from append_single_scalar[OF f2 p2 u2[unfolded Scalar] c2] obtain ys where
      b: "cur = A1 ys" "length ys = length r2"
        "features_arr lb' = Some (A2 (n2 + 1) (map2 (@) r2 (map (\<lambda>x. [x]) ys)))"
        "feature_inds lb' = feature_inds lb @ [i2]"
      by blast
    from a(1) b(1) have "ys = xs" by simp
    with a b show ?thesis
      by (intro exI[of _ 1] exI[of _ "map (\<lambda>x. [x]) xs"] exI[of _ "Suc 0"]) simp
  next
    case (Vector xs)
    from append_single_vector[OF f1 p1 u1[unfolded Vector] c1] obtain w rows where
      a: "cur = A2 w rows" "length rows = length r1"
        "features_arr la' = Some (A2 (n1 + w) (map2 (@) r1 rows))"
        "feature_inds la' = feature_inds la @ replicate (length xs) i1"
      by blast
    from append_single_vector[OF f2 p2 u2[unfolded Vector] c2] obtain w' rows' where
      b: "cur = A2 w' rows'" "length rows' = length r2"
        "features_arr lb' = Some (A2 (n2 + w') (map2 (@) r2 rows'))"
        "feature_inds lb' = feature_inds lb @ replicate (length xs) i2"
      by blast
    from a(1) b(1) have "w' = w" "rows' = rows" by simp_all
    with a b show ?thesis
      by (intro exI[of _ w] exI[of _ rows] exI[of _ "length xs"]) simp
  qed
qed

lemma ensure_syls_same:
  assumes "syls l1 = syls l2"
    and "ensure_syls env audio ls ons offs msk l1 = Inr (e1, l1a)"
    and "ensure_syls env audio ls ons offs msk l2 = Inr (e2, l2a)"
  shows "syls l1a = syls l2a \<and> syls l1a \<noteq> None \<and>
         features_arr l1a = features_arr l1 \<and> features_arr l2a = features_arr l2 \<and>
         feature_inds l1a = feature_inds l1 \<and> feature_inds l2a = feature_inds l2"
  using assms
  by (auto simp: ensure_syls_def split: option.splits sum.splits prod.splits)

lemma single_syl_feature_independent:
  assumes s: "syls l1 = syls l2"
    and f1: "features_arr l1 = Some (A2 n1 r1)" and f2: "features_arr l2 = Some (A2 n2 r2)"
    and r1: "snd (single_syl_feature env audio ls ons offs msk f i1 l1) = Inr l1'"
    and r2: "snd (single_syl_feature env audio ls ons offs msk f i2 l2) = Inr l2'"
  shows "\<exists>w B k. length B = length r1 \<and> length B = length r2 \<and>
           features_arr l1' = Some (A2 (n1 + w) (map2 (@) r1 B)) \<and>
           features_arr l2' = Some (A2 (n2 + w) (map2 (@) r2 B)) \<and>
           feature_inds l1' = feature_inds l1 @ replicate k i1 \<and>
           feature_inds l2' = feature_inds l2 @ replicate k i2"
proof -
  from r1 obtain e1 l1a where
    a1: "ensure_syls env audio ls ons offs msk l1 = Inr (e1, l1a)"
    by (auto simp: single_syl_feature_def split: sum.splits prod.splits)
  from r2 obtain e2 l2a where
    a2: "ensure_syls env audio ls ons offs msk l2 = Inr (e2, l2a)"
    by (auto simp: single_syl_feature_def split: sum.splits prod.splits)
  note same = ensure_syls_same[OF s a1 a2]
  then have ne: "syls l1a \<noteq> None" and eq: "syls l1a = syls l2a" by blast+
  from ne obtain ss where ss1: "syls l1a = Some ss" by blast
  with eq have ss2: "syls l2a = Some ss" by simp
  note ss = ss1 ss2
  from r1 a1 ss obtain c1 v1 where
    b1: "syl_loop f (length ss) (None, ftr l1a) (enumerate 0 ss) = Inr (c1, v1)" and
    p1: "append_single i1 (l1a\<lparr>curr_feature_arr := c1, ftr := v1\<rparr>) = Inr l1'"
    by (auto simp: single_syl_feature_def Let_def split: sum.splits prod.splits)
  from r2 a2 ss obtain c2 v2 where
    b2: "syl_loop f (length ss) (None, ftr l2a) (enumerate 0 ss) = Inr (c2, v2)" and
    p2: "append_single i2 (l2a\<lparr>curr_feature_arr := c2, ftr := v2\<rparr>) = Inr l2'"
    by (auto simp: single_syl_feature_def Let_def split: sum.splits prod.splits)
  from syl_loop_related[of "(None, ftr l1a)" "(None, ftr l2a)" f "length ss" "enumerate 0 ss"]
    b1 b2
  have rel: "c1 = c2" "c1 \<noteq> None \<longrightarrow> v1 = v2" by auto
  let ?la = "l1a\<lparr>curr_feature_arr := c1, ftr := v1\<rparr>"
  let ?lb = "l2a\<lparr>curr_feature_arr := c2, ftr := v2\<rparr>"
  from same f1 have g1: "features_arr ?la = Some (A2 n1 r1)" by simp
  from same f2 have g2: "features_arr ?lb = Some (A2 n2 r2)" by simp
  from append_single_bound[OF p1] have "c1 \<noteq> None" by auto
  with rel have cv: "curr_feature_arr ?la = curr_feature_arr ?lb" "ftr ?la = ftr ?lb"
    by simp_all
  from append_single_independent[OF g1 g2 cv p1 p2] same show ?thesis by simp
qed

lemma multiple_syl_feature_independent:
  assumes f1: "features_arr l1 = Some (A2 n1 r1)" and f2: "features_arr l2 = Some (A2 n2 r2)"
    and p1: "multiple_syl_feature ons offs msk g i1 l1 = Inr l1'"
    and p2: "multiple_syl_feature ons offs msk g i2 l2 = Inr l2'"
  shows "\<exists>w B k. length B = length r1 \<and> length B = length r2 \<and>
           features_arr l1' = Some (A2 (n1 + w) (map2 (@) r1 B)) \<and>
           features_arr l2' = Some (A2 (n2 + w) (map2 (@) r2 B)) \<and>
           feature_inds l1' = feature_inds l1 @ replicate k i1 \<and>
           feature_inds l2' = feature_inds l2 @ replicate k i2"
proof -
  let ?cur = "g ons offs msk"
  from f1 p1 obtain F1 where
    F1: "concatenate_axis1 (A2 n1 r1) (column ?cur) = Inr F1" and
    a1: "features_arr l1' = Some F1" "feature_inds l1' = feature_inds l1 @ [i1]"
    by (auto simp: multiple_syl_feature_def Let_def split: sum.splits)
  from f2 p2 obtain F2 where
    F2: "concatenate_axis1 (A2 n2 r2) (column ?cur) = Inr F2" and
    a2: "features_arr l2' = Some F2" "feature_inds l2' = feature_inds l2 @ [i2]"
    by (auto simp: multiple_syl_feature_def Let_def split: sum.splits)
  from concatenate_axis1_A2[OF F1] have
    b1: "length ?cur = length r1" "F1 = A2 (n1 + 1) (map2 (@) r1 (map (\<lambda>x. [x]) ?cur))"
    by (auto simp: column_def)
  from concatenate_axis1_A2[OF F2] have
    b2: "length ?cur = length r2" "F2 = A2 (n2 + 1) (map2 (@) r2 (map (\<lambda>x. [x]) ?cur))"
    by (auto simp: column_def)
  from a1 a2 b1 b2 show ?thesis
    by (intro exI[of _ 1] exI[of _ "map (\<lambda>x. [x]) ?cur"] exI[of _ "Suc 0"]) simp
qed

lemma neural_net_feature_matrix:
  "neural_net_feature audio ls ons offs msk h name l = Inr l' \<Longrightarrow>
     features_arr l' = features_arr l \<and> feature_inds l' = feature_inds l"
  by (auto simp: neural_net_feature_def Let_def split: option.splits sum.splits prod.splits)

lemma feature_step_independent:
  assumes s: "syls l1 = syls l2"
    and f1: "features_arr l1 = Some (A2 n1 r1)" and f2: "features_arr l2 = Some (A2 n2 r2)"
    and p1: "snd (feature_step env audio ls ons offs msk l1 (i1, name)) = Inr l1'"
    and p2: "snd (feature_step env audio ls ons offs msk l2 (i2, name)) = Inr l2'"
  shows "(features_arr l1' = features_arr l1 \<and> features_arr l2' = features_arr l2 \<and>
          feature_inds l1' = feature_inds l1 \<and> feature_inds l2' = feature_inds l2) \<or>
         (\<exists>w B k. length B = length r1 \<and> length B = length r2 \<and>
           features_arr l1' = Some (A2 (n1 + w) (map2 (@) r1 B)) \<and>
           features_arr l2' = Some (A2 (n2 + w) (map2 (@) r2 B)) \<and>
           feature_inds l1' = feature_inds l1 @ replicate k i1 \<and>
           feature_inds l2' = feature_inds l2 @ replicate k i2)"
proof (cases "single_syl_features_switch_case_dict env name")
  case (Some f)
  with p1 p2 have
    "snd (single_syl_feature env audio ls ons offs msk f i1 l1) = Inr l1'"
    "snd (single_syl_feature env audio ls ons offs msk f i2 l2) = Inr l2'"
    by (simp_all add: feature_step_def)
  from single_syl_feature_independent[OF s f1 f2 this] show ?thesis by blast
next
  case None
  note n1 = None
  show ?thesis
  proof (cases "multiple_syl_features_switch_case_dict env name")
    case (Some g)
    with n1 p1 p2 have
      "multiple_syl_feature ons offs msk g i1 l1 = Inr l1'"
      "multiple_syl_feature ons offs msk g i2 l2 = Inr l2'"
      by (simp_all add: feature_step_def)
    from multiple_syl_feature_independent[OF f1 f2 this] show ?thesis by blast
  next
    case None
    note n2 = None
    show ?thesis
    proof (cases "neural_net_features_switch_case_dict env name")
      case None
      with n1 n2 p1 p2 show ?thesis by (simp add: feature_step_def)
    next
      case (Some h)
      with n1 n2 p1 p2 have
        "neural_net_feature audio ls ons offs msk h name l1 = Inr l1'"
        "neural_net_feature audio ls ons offs msk h name l2 = Inr l2'"
        by (simp_all add: feature_step_def)
      then show ?thesis by (auto dest: neural_net_feature_matrix)
    qed
  qed
qed

text \<open>
  C8. What a feature contributes depends on the features processed before it. The
  scalar single-syllable feature duration adds one column, with \<open>feature_inds\<close> entry 1,
  when the vector feature spectral_vec3 comes first; listed first, it leaves the 1-d
  array of line 583, on which the \<open>np.concatenate(..., axis=1)\<close> of spectral_vec3
  raises ValueError, so the same two features in the other order give no result; and
  alone it gives that 1-d array as the whole of \<open>features_arr\<close>.
\<close>

theorem C8_contribution_depends_on_order:
  "from_file ex_env [''spectral_vec3'', ''duration''] ''A.wav'' (LArr ''aabc'')
     [0, 10, 20, 30] [8, 18, 28, 38] ''ab''
     = ([MakeSyls],
        Inr (Some \<lparr>ed_labels = ''aab'', ed_onsets_Hz = [0, 10, 20], ed_offsets_Hz = [8, 18, 28],
                   ed_features_arr =
                     Some (A2 4
                        [[Val 8, Val 0, Val 1, Val 8],
                         [Val 8, Val 0, Val 1, Val 8],
                         [Val 8, Val 0, Val 1, Val 8]]),
                   ed_feature_inds = Some [0, 0, 0, 1],
                   ed_neuralnet_inputs_dict = None, ed_samp_freq = 44100\<rparr>)) \<and>
   from_file ex_env [''duration'', ''spectral_vec3''] ''A.wav'' (LArr ''aabc'')
     [0, 10, 20, 30] [8, 18, 28, 38] ''ab'' = ([MakeSyls], Inl ValueError) \<and>
   from_file ex_env [''duration''] ''A.wav'' (LArr ''aabc'')
     [0, 10, 20, 30] [8, 18, 28, 38] ''ab''
     = ([MakeSyls],
        Inr (Some \<lparr>ed_labels = ''aab'', ed_onsets_Hz = [0, 10, 20], ed_offsets_Hz = [8, 18, 28],
                   ed_features_arr = Some (A1 [Val 8, Val 8, Val 8]),
                   ed_feature_inds = Some [0], ed_neuralnet_inputs_dict = None,
                   ed_samp_freq = 44100\<rparr>))"
  by code_simp

end
